theory Spec2Isabelle
  imports Main
begin

section \<open>Theme manager (src/script.js, class ThemeManager)\<close>

text \<open>
  The browser state the theme manager touches: the persistent key-value storage (the item
  stored under the key \<open>theme\<close>, and whether reading or writing it throws), the system
  colour-scheme media query (\<open>None\<close> when \<open>matchMedia\<close> is unavailable), the
  \<open>data-theme\<close> attribute of the document element, the class of the \<open>#theme-icon\<close>
  element (\<open>None\<close> when the page has no such element) and the manager's own field
  \<open>currentTheme\<close>. Console output of the theme manager is not recorded.
\<close>

record theme_state =
  ls_readable :: bool
  ls_writable :: bool
  ls_theme :: "string option"
  system_dark :: "bool option"
  data_theme :: "string option"
  icon_class :: "string option"
  currentTheme :: string

text \<open>\<open>localStorage.getItem('theme')\<close>; a throwing storage is caught by every caller
  and leaves the caller with its default.\<close>

definition getItem_theme :: "theme_state \<Rightarrow> string option option" where
  "getItem_theme s = (if ls_readable s then Some (ls_theme s) else None)"


definition setTheme :: "string \<Rightarrow> bool \<Rightarrow> theme_state \<Rightarrow> theme_state" where
  "setTheme theme savePreference s =
     (let s1 = s\<lparr>data_theme := Some theme\<rparr>;
          s2 = (if savePreference \<and> ls_writable s1 then s1\<lparr>ls_theme := Some theme\<rparr> else s1)
      in s2\<lparr>currentTheme := theme\<rparr>)"

definition updateThemeIcon :: "theme_state \<Rightarrow> theme_state" where
  "updateThemeIcon s =
     (case icon_class s of
        None \<Rightarrow> s
      | Some _ \<Rightarrow>
          (if currentTheme s = ''dark'' then s\<lparr>icon_class := Some ''fas fa-sun''\<rparr>
           else s\<lparr>icon_class := Some ''fas fa-moon''\<rparr>))"




text \<open>The listener for a change of the system colour scheme; the argument is
  \<open>e.matches\<close>.\<close>

definition handleSystemThemeChange :: "bool \<Rightarrow> theme_state \<Rightarrow> theme_state" where
  "handleSystemThemeChange matches s =
     (let hasStoredTheme =
            (case getItem_theme s of Some (Some stored) \<Rightarrow> stored \<noteq> [] | _ \<Rightarrow> False)
      in if \<not> hasStoredTheme
         then (let newTheme = (if matches then ''dark'' else ''light'')
               in updateThemeIcon (setTheme newTheme False (s\<lparr>currentTheme := newTheme\<rparr>)))
         else s)"

section \<open>The document tree\<close>

text \<open>
  A DOM node is an element (tag, properties in the order they were set, children), a text
  node, or a run of markup assigned through \<open>innerHTML\<close>. The markup is kept as the
  string that was assigned: the browser's HTML parser is not part of the repository, so
  selectors do not look inside a \<open>Markup\<close> node. Properties are stored under the names
  the code uses (\<open>className\<close>, \<open>href\<close>, \<open>target\<close>, \<open>id\<close>, \<open>name\<close>, \<open>content\<close>).
\<close>

datatype node =
    Element string "(string \<times> string) list" "node list"
  | TextNode string
  | Markup string

fun tag_of :: "node \<Rightarrow> string" where
  "tag_of (Element t a cs) = t"
| "tag_of _ = []"

fun props_of :: "node \<Rightarrow> (string \<times> string) list" where
  "props_of (Element t a cs) = a"
| "props_of _ = []"

fun children_of :: "node \<Rightarrow> node list" where
  "children_of (Element t a cs) = cs"
| "children_of _ = []"

fun set_children :: "node list \<Rightarrow> node \<Rightarrow> node" where
  "set_children cs' (Element t a cs) = Element t a cs'"
| "set_children cs' n = n"

fun set_prop :: "string \<Rightarrow> string \<Rightarrow> (string \<times> string) list \<Rightarrow> (string \<times> string) list" where
  "set_prop k v [] = [(k, v)]"
| "set_prop k v ((k', v') # ps) = (if k' = k then (k, v) # ps else (k', v') # set_prop k v ps)"

fun set_property :: "string \<Rightarrow> string \<Rightarrow> node \<Rightarrow> node" where
  "set_property k v (Element t a cs) = Element t (set_prop k v a) cs"
| "set_property k v n = n"

text \<open>\<open>el.textContent = s\<close> and \<open>el.innerHTML = s\<close> replace all children; the empty
  string leaves the element without children.\<close>

definition set_textContent :: "string \<Rightarrow> node \<Rightarrow> node" where
  "set_textContent s n = set_children (if s = [] then [] else [TextNode s]) n"

definition set_innerHTML :: "string \<Rightarrow> node \<Rightarrow> node" where
  "set_innerHTML s n = set_children (if s = [] then [] else [Markup s]) n"

definition appendChild :: "node \<Rightarrow> node \<Rightarrow> node" where
  "appendChild parent child = set_children (children_of parent @ [child]) parent"

subsection \<open>Selectors\<close>

definition is_ws :: "char \<Rightarrow> bool" where
  "is_ws c = (c = CHR '' '' \<or> c = CHR 0x09 \<or> c = CHR 0x0A \<or> c = CHR 0x0C \<or> c = CHR 0x0D)"

text \<open>The class list of an element: its \<open>className\<close> split at white space.\<close>

definition class_tokens :: "string \<Rightarrow> string list" where
  "class_tokens s =
     filter (\<lambda>t. t \<noteq> [])
       (foldr (\<lambda>c acc. if is_ws c then [] # acc else (c # hd acc) # tl acc) s [[]])"

definition is_element :: "node \<Rightarrow> bool" where
  "is_element n = (case n of Element t a cs \<Rightarrow> True | _ \<Rightarrow> False)"

definition has_tag :: "string \<Rightarrow> node \<Rightarrow> bool" where
  "has_tag t n = (is_element n \<and> tag_of n = t)"

definition has_id :: "string \<Rightarrow> node \<Rightarrow> bool" where
  "has_id i n = (is_element n \<and> map_of (props_of n) ''id'' = Some i)"

definition has_class :: "string \<Rightarrow> node \<Rightarrow> bool" where
  "has_class c n =
     (is_element n \<and>
      (case map_of (props_of n) ''className'' of
         None \<Rightarrow> False
       | Some v \<Rightarrow> c \<in> set (class_tokens v)))"

text \<open>\<open>querySelector\<close>: the first element, in document order, that satisfies the
  selector; \<open>find_node\<close> looks at a node and then below it, \<open>find_forest\<close> at a list of
  siblings and their subtrees.\<close>

fun find_node :: "(node \<Rightarrow> bool) \<Rightarrow> node \<Rightarrow> node option"
  and find_forest :: "(node \<Rightarrow> bool) \<Rightarrow> node list \<Rightarrow> node option" where
  "find_node P (Element t a cs) =
     (if P (Element t a cs) then Some (Element t a cs) else find_forest P cs)"
| "find_node P (TextNode s) = None"
| "find_node P (Markup s) = None"
| "find_forest P [] = None"
| "find_forest P (n # ns) =
     (case find_node P n of Some m \<Rightarrow> Some m | None \<Rightarrow> find_forest P ns)"

text \<open>A mutation of the element a selector returns: the tree with the first match
  replaced by its image under \<open>f\<close>, or \<open>None\<close> when nothing matches.\<close>

fun update_node :: "(node \<Rightarrow> bool) \<Rightarrow> (node \<Rightarrow> node) \<Rightarrow> node \<Rightarrow> node option"
  and update_forest :: "(node \<Rightarrow> bool) \<Rightarrow> (node \<Rightarrow> node) \<Rightarrow> node list \<Rightarrow> node list option" where
  "update_node P f (Element t a cs) =
     (if P (Element t a cs) then Some (f (Element t a cs))
      else (case update_forest P f cs of None \<Rightarrow> None | Some cs' \<Rightarrow> Some (Element t a cs')))"
| "update_node P f (TextNode s) = None"
| "update_node P f (Markup s) = None"
| "update_forest P f [] = None"
| "update_forest P f (n # ns) =
     (case update_node P f n of
        Some n' \<Rightarrow> Some (n' # ns)
      | None \<Rightarrow> (case update_forest P f ns of None \<Rightarrow> None | Some ns' \<Rightarrow> Some (n # ns')))"

text \<open>\<open>el.querySelector(sel)\<close> searches the descendants of \<open>el\<close>, not \<open>el\<close>
  itself.\<close>

definition querySelector_in :: "(node \<Rightarrow> bool) \<Rightarrow> node \<Rightarrow> node option" where
  "querySelector_in P el = find_forest P (children_of el)"

definition update_in :: "(node \<Rightarrow> bool) \<Rightarrow> (node \<Rightarrow> node) \<Rightarrow> node \<Rightarrow> node" where
  "update_in P f el =
     (case update_forest P f (children_of el) of None \<Rightarrow> el | Some cs' \<Rightarrow> set_children cs' el)"

section \<open>The data document (data.json)\<close>

text \<open>
  The parsed data document, typed as section 3 of the specification types it. An optional
  field is an \<open>option\<close>; a field the code only tests for truthiness and then uses as a
  string is a string, with the empty string as the falsy case.
\<close>

record contact =
  label :: string
  url :: string
  icon :: string

record text_link =
  link_text :: string
  link_url :: string

record subtitle =
  sub_text :: string
  sub_links :: "text_link list option"

record detail =
  detail_text :: string
  detail_link :: "text_link option"
  detail_tags :: "string list option"

record timeline_item =
  ti_title :: string
  ti_subtitle :: "subtitle option"
  ti_period :: "string option"
  ti_details :: "detail list option"

record card =
  card_title :: string
  card_content :: string
  card_tags :: "string list option"

text \<open>The polymorphic \<open>items\<close> payload of a section. \<open>ItemsObject\<close> lists the
  properties of a JSON object in the order they were inserted.\<close>

datatype items =
    ItemsAbsent
  | ItemsString string
  | ItemsContacts "contact list"
  | ItemsTimeline "timeline_item list"
  | ItemsCards "card list"
  | ItemsObject "(string \<times> string list) list"

record doc_section =
  sec_id :: string
  sec_title :: string
  sec_type :: string
  sec_items :: items
  sec_content :: "string option"

record meta_info =
  meta_title :: "string option"
  meta_description :: "string option"

record personal_info =
  p_name :: "string option"
  p_title :: "string option"
  p_summary :: "string option"

record theme_info =
  colors_primary :: "string option"
  colors_primaryDark :: "string option"
  fonts_primary :: "string option"
  layout_containerWidth :: "string option"

text \<open>\<open>nav_enabled\<close> is the truthiness of \<open>config?.navigation?.enabled\<close>.\<close>

record data_document =
  meta :: "meta_info option"
  personal :: "personal_info option"
  contacts :: "contact list option"
  theme :: "theme_info option"
  nav_enabled :: bool
  sections :: "doc_section list option"

section \<open>Strings\<close>

fun startsWith :: "string \<Rightarrow> string \<Rightarrow> bool" where
  "startsWith s [] = True"
| "startsWith [] (p # ps) = False"
| "startsWith (c # cs) (p # ps) = (c = p \<and> startsWith cs ps)"

text \<open>\<open>xs.join(sep)\<close>.\<close>

fun join :: "string \<Rightarrow> string list \<Rightarrow> string" where
  "join sep [] = []"
| "join sep [x] = x"
| "join sep (x # y # ys) = x @ sep @ join sep (y # ys)"

text \<open>The first occurrence of a pattern in a string: the text preceding it and the text
  following it.\<close>

fun split_first :: "string \<Rightarrow> string \<Rightarrow> (string \<times> string) option" where
  "split_first pat [] = (if pat = [] then Some ([], []) else None)"
| "split_first pat (c # cs) =
     (if startsWith (c # cs) pat then Some ([], drop (length pat) (c # cs))
      else (case split_first pat cs of
              None \<Rightarrow> None
            | Some (preceding, following) \<Rightarrow> Some (c # preceding, following)))"

text \<open>The replacement text of \<open>String.prototype.replace\<close> for a string pattern
  (ECMAScript GetSubstitution with no capture groups): \<open>$$\<close> stands for a dollar sign,
  \<open>$&\<close> for the matched text, a dollar sign and a backquote for the text preceding the
  match, a dollar sign and an apostrophe for the text following it; every other character
  stands for itself.\<close>

fun getSubstitution :: "string \<Rightarrow> string \<Rightarrow> string \<Rightarrow> string \<Rightarrow> string" where
  "getSubstitution matched preceding following [] = []"
| "getSubstitution matched preceding following [c] = [c]"
| "getSubstitution matched preceding following (c # d # r) =
     (if c = CHR ''$'' \<and> d = CHR ''$'' then CHR ''$'' # getSubstitution matched preceding following r
      else if c = CHR ''$'' \<and> d = CHR ''&'' then matched @ getSubstitution matched preceding following r
      else if c = CHR ''$'' \<and> d = CHR 0x60 then preceding @ getSubstitution matched preceding following r
      else if c = CHR ''$'' \<and> d = CHR 0x27 then following @ getSubstitution matched preceding following r
      else c # getSubstitution matched preceding following (d # r))"

text \<open>\<open>s.replace(pat, repl)\<close> with a string pattern: only the first occurrence is
  replaced.\<close>

definition replace :: "string \<Rightarrow> string \<Rightarrow> string \<Rightarrow> string" where
  "replace s pat repl =
     (case split_first pat s of
        None \<Rightarrow> s
      | Some (preceding, following) \<Rightarrow> preceding @ getSubstitution pat preceding following repl @ following)"

section \<open>The page\<close>

text \<open>
  What the renderer can change: the document title, the children of \<open>head\<close> and of
  \<open>body\<close>, the style properties of the document element, the font family of the body,
  and the console. \<open>document.querySelector\<close> searches the head and then the body; the
  \<open>html\<close>, \<open>head\<close> and \<open>body\<close> elements themselves carry no id or class here.
\<close>

datatype log_level = Warn | Error

record page =
  doc_title :: string
  doc_head :: "node list"
  doc_body :: "node list"
  root_style :: "(string \<times> string) list"
  body_fontFamily :: "string option"
  console :: "(log_level \<times> string) list"

definition querySelector :: "(node \<Rightarrow> bool) \<Rightarrow> page \<Rightarrow> node option" where
  "querySelector P pg =
     (case find_forest P (doc_head pg) of
        Some n \<Rightarrow> Some n
      | None \<Rightarrow> find_forest P (doc_body pg))"

text \<open>A mutation of the element \<open>document.querySelector\<close> returns; the page is
  unchanged when nothing matches.\<close>

definition update_page :: "(node \<Rightarrow> bool) \<Rightarrow> (node \<Rightarrow> node) \<Rightarrow> page \<Rightarrow> page" where
  "update_page P f pg =
     (case update_forest P f (doc_head pg) of
        Some h \<Rightarrow> pg\<lparr>doc_head := h\<rparr>
      | None \<Rightarrow>
          (case update_forest P f (doc_body pg) of
             Some b \<Rightarrow> pg\<lparr>doc_body := b\<rparr>
           | None \<Rightarrow> pg))"

text \<open>The descendant selector \<open>A P\<close> (as in \<open>#about p\<close>): the first element, in
  document order, that satisfies \<open>P\<close> and has an ancestor satisfying \<open>A\<close>. The flag says
  whether such an ancestor has been passed.\<close>

fun update_desc_node ::
    "(node \<Rightarrow> bool) \<Rightarrow> (node \<Rightarrow> bool) \<Rightarrow> (node \<Rightarrow> node) \<Rightarrow> bool \<Rightarrow> node \<Rightarrow> node option"
  and update_desc_forest ::
    "(node \<Rightarrow> bool) \<Rightarrow> (node \<Rightarrow> bool) \<Rightarrow> (node \<Rightarrow> node) \<Rightarrow> bool \<Rightarrow> node list \<Rightarrow> node list option" where
  "update_desc_node A P f inside (Element t a cs) =
     (if inside \<and> P (Element t a cs) then Some (f (Element t a cs))
      else (case update_desc_forest A P f (inside \<or> A (Element t a cs)) cs of
              None \<Rightarrow> None
            | Some cs' \<Rightarrow> Some (Element t a cs')))"
| "update_desc_node A P f inside (TextNode s) = None"
| "update_desc_node A P f inside (Markup s) = None"
| "update_desc_forest A P f inside [] = None"
| "update_desc_forest A P f inside (n # ns) =
     (case update_desc_node A P f inside n of
        Some n' \<Rightarrow> Some (n' # ns)
      | None \<Rightarrow>
          (case update_desc_forest A P f inside ns of
             None \<Rightarrow> None
           | Some ns' \<Rightarrow> Some (n # ns')))"

definition update_page_desc ::
    "(node \<Rightarrow> bool) \<Rightarrow> (node \<Rightarrow> bool) \<Rightarrow> (node \<Rightarrow> node) \<Rightarrow> page \<Rightarrow> page" where
  "update_page_desc A P f pg =
     (case update_desc_forest A P f False (doc_head pg) of
        Some h \<Rightarrow> pg\<lparr>doc_head := h\<rparr>
      | None \<Rightarrow>
          (case update_desc_forest A P f False (doc_body pg) of
             Some b \<Rightarrow> pg\<lparr>doc_body := b\<rparr>
           | None \<Rightarrow> pg))"

subsection \<open>Element references\<close>

text \<open>
  A variable that holds an element holds a reference, and a mutation through it changes the
  element where it is. A reference is modelled as the position of the element: whether it
  is below \<open>head\<close> or \<open>body\<close>, and the child indices on the way down.
\<close>

datatype position = InHead "nat list" | InBody "nat list"

fun node_at :: "node list \<Rightarrow> nat list \<Rightarrow> node option" where
  "node_at ns [] = None"
| "node_at ns (i # p) =
     (if i < length ns
      then (if p = [] then Some (ns ! i) else node_at (children_of (ns ! i)) p)
      else None)"

fun update_at :: "(node \<Rightarrow> node) \<Rightarrow> node list \<Rightarrow> nat list \<Rightarrow> node list" where
  "update_at f ns [] = ns"
| "update_at f ns (i # p) =
     (if i < length ns
      then ns[i := (if p = [] then f (ns ! i)
                    else set_children (update_at f (children_of (ns ! i)) p) (ns ! i))]
      else ns)"

definition element_at :: "page \<Rightarrow> position \<Rightarrow> node option" where
  "element_at pg pos =
     (case (case pos of InHead p \<Rightarrow> node_at (doc_head pg) p
                      | InBody p \<Rightarrow> node_at (doc_body pg) p) of
        Some (Element t a cs) \<Rightarrow> Some (Element t a cs)
      | _ \<Rightarrow> None)"

definition update_element :: "position \<Rightarrow> (node \<Rightarrow> node) \<Rightarrow> page \<Rightarrow> page" where
  "update_element pos f pg =
     (case pos of
        InHead p \<Rightarrow> pg\<lparr>doc_head := update_at f (doc_head pg) p\<rparr>
      | InBody p \<Rightarrow> pg\<lparr>doc_body := update_at f (doc_body pg) p\<rparr>)"

text \<open>The position of the element \<open>querySelector\<close> returns: the first match in
  document order. \<open>locate_forest\<close> takes the index of the first node of its list.\<close>

fun locate_node :: "(node \<Rightarrow> bool) \<Rightarrow> node \<Rightarrow> nat list option"
  and locate_forest :: "(node \<Rightarrow> bool) \<Rightarrow> nat \<Rightarrow> node list \<Rightarrow> nat list option" where
  "locate_node P (Element t a cs) =
     (if P (Element t a cs) then Some [] else locate_forest P 0 cs)"
| "locate_node P (TextNode s) = None"
| "locate_node P (Markup s) = None"
| "locate_forest P i [] = None"
| "locate_forest P i (n # ns) =
     (case locate_node P n of
        Some p \<Rightarrow> Some (i # p)
      | None \<Rightarrow> locate_forest P (Suc i) ns)"

definition locate :: "(node \<Rightarrow> bool) \<Rightarrow> page \<Rightarrow> position option" where
  "locate P pg =
     (case locate_forest P 0 (doc_head pg) of
        Some p \<Rightarrow> Some (InHead p)
      | None \<Rightarrow> map_option InBody (locate_forest P 0 (doc_body pg)))"

section \<open>The portfolio renderer (class PortfolioRenderer)\<close>

subsection \<open>Utility methods\<close>

text \<open>\<open>createElement(tag, attributes)\<close>: an attribute whose value is \<open>undefined\<close>
  (\<open>None\<close>) is skipped.\<close>

fun apply_attribute :: "node \<Rightarrow> string \<times> string option \<Rightarrow> node" where
  "apply_attribute el (key, None) = el"
| "apply_attribute el (key, Some v) =
     (if key = ''textContent'' then set_textContent v el
      else if key = ''innerHTML'' then set_innerHTML v el
      else set_property key v el)"

definition createElement :: "string \<Rightarrow> (string \<times> string option) list \<Rightarrow> node" where
  "createElement t attributes = foldl apply_attribute (Element t [] []) attributes"

definition truthy :: "string option \<Rightarrow> bool" where
  "truthy v = (case v of None \<Rightarrow> False | Some s \<Rightarrow> s \<noteq> [])"

text \<open>The selectors \<open>setElementContent\<close> is called with: a simple selector, or a
  descendant selector.\<close>

datatype selector = Simple "node \<Rightarrow> bool" | Descendant "node \<Rightarrow> bool" "node \<Rightarrow> bool"

fun update_selected :: "selector \<Rightarrow> (node \<Rightarrow> node) \<Rightarrow> page \<Rightarrow> page" where
  "update_selected (Simple P) f pg = update_page P f pg"
| "update_selected (Descendant A P) f pg = update_page_desc A P f pg"

definition setElementContent :: "selector \<Rightarrow> string option \<Rightarrow> bool \<Rightarrow> page \<Rightarrow> page" where
  "setElementContent sel content isHTML pg =
     (case content of
        None \<Rightarrow> pg
      | Some c \<Rightarrow>
          (if c = [] then pg
           else update_selected sel (if isHTML then set_innerHTML c else set_textContent c) pg))"

subsection \<open>Metadata and header\<close>

definition is_meta_description :: "node \<Rightarrow> bool" where
  "is_meta_description n =
     (has_tag ''meta'' n \<and> map_of (props_of n) ''name'' = Some ''description'')"

definition updateMeta :: "data_document \<Rightarrow> page \<Rightarrow> page" where
  "updateMeta d pg =
     (case meta d of
        None \<Rightarrow> pg
      | Some m \<Rightarrow>
          (let pg1 = (case meta_title m of
                        None \<Rightarrow> pg
                      | Some t \<Rightarrow> if t = [] then pg else pg\<lparr>doc_title := t\<rparr>)
           in case meta_description m of
                None \<Rightarrow> pg1
              | Some desc \<Rightarrow>
                  (if desc = [] then pg1
                   else (case querySelector is_meta_description pg1 of
                           Some metaDesc \<Rightarrow>
                             update_page is_meta_description (set_property ''content'' desc) pg1
                         | None \<Rightarrow>
                             pg1\<lparr>doc_head := doc_head pg1 @
                               [set_property ''content'' desc
                                  (set_property ''name'' ''description''
                                     (Element ''meta'' [] []))]\<rparr>))))"

definition target_of :: "string \<Rightarrow> string option" where
  "target_of u = (if startsWith u ''http'' then Some ''_blank'' else None)"

definition header_contact_link :: "contact \<Rightarrow> node" where
  "header_contact_link c =
     (let link = createElement ''a''
                   [(''href'', Some (url c)), (''className'', Some ''contact-link''),
                    (''target'', target_of (url c))];
          link1 = appendChild link (createElement ''i'' [(''className'', Some (icon c))])
      in appendChild link1 (createElement ''span'' [(''textContent'', Some (label c))]))"

definition contact_links_entry :: "contact \<Rightarrow> node" where
  "contact_links_entry c =
     (let p = createElement ''p'' [];
          p1 = appendChild p (createElement ''i'' [(''className'', Some (icon c))]);
          p2 = appendChild p1 (TextNode '' '');
          link = createElement ''a''
                   [(''href'', Some (url c)), (''textContent'', Some (label c)),
                    (''target'', target_of (url c))]
      in appendChild p2 link)"

text \<open>\<open>el.innerHTML = ''\<close> followed by one \<open>appendChild\<close> per item.\<close>

definition refill :: "node list \<Rightarrow> node \<Rightarrow> node" where
  "refill new el = foldl appendChild (set_innerHTML [] el) new"

definition renderContacts :: "data_document \<Rightarrow> page \<Rightarrow> page" where
  "renderContacts d pg =
     (case contacts d of
        None \<Rightarrow> pg
      | Some cs \<Rightarrow>
          (let pg1 = update_page (has_id ''header-contacts'') (refill (map header_contact_link cs)) pg
           in update_page (has_id ''contact-links'') (refill (map contact_links_entry cs)) pg1))"

definition renderHeader :: "data_document \<Rightarrow> page \<Rightarrow> page" where
  "renderHeader d pg =
     (case personal d of
        None \<Rightarrow> pg
      | Some p \<Rightarrow>
          (let pg1 = setElementContent (Simple (has_class ''name'')) (p_name p) False pg;
               pg2 = setElementContent (Simple (has_class ''title'')) (p_title p) False pg1;
               pg3 = setElementContent (Descendant (has_id ''about'') (has_tag ''p''))
                       (p_summary p) True pg2
           in renderContacts d pg3))"

subsection \<open>Section renderers\<close>

datatype js_error = TypeError | SyntaxError | HttpStatusError nat

text \<open>
  Two services of the browser that the renderer relies on and that are not part of the
  repository are parameters of the model. \<open>select\<close> is \<open>document.querySelector\<close> on
  the selectors that are more than \<open>#\<close> and an identifier: it gives the error thrown,
  or a reference to the element selected in the page, if any. \<open>reserialise\<close> gives, for
  markup assigned to \<open>innerHTML\<close>, the markup that is read back from \<open>innerHTML\<close>
  (the serialisation of what the parser made of it).
\<close>

record browser =
  select :: "string \<Rightarrow> page \<Rightarrow> js_error + position option"
  reserialise :: "string \<Rightarrow> string"

text \<open>\<open>renderLinkedText\<close>. Both branches of the test for parentheses in the source
  run the same statement.\<close>

definition linkHtml :: "text_link \<Rightarrow> string" where
  "linkHtml l = ''<a href=\"'' @ link_url l @ ''\" target=\"_blank\">'' @ link_text l @ ''</a>''"

definition renderLinkedText :: "string \<Rightarrow> text_link list \<Rightarrow> string" where
  "renderLinkedText text links =
     foldl (\<lambda>result l. replace result (link_text l) (linkHtml l)) text links"

definition renderTextSection :: "node \<Rightarrow> doc_section \<Rightarrow> node" where
  "renderTextSection container sec =
     appendChild container
       (set_innerHTML (case sec_content sec of None \<Rightarrow> ''undefined'' | Some c \<Rightarrow> c)
          (createElement ''p'' []))"

definition techStack :: "string list \<Rightarrow> node" where
  "techStack tags = createElement ''em'' [(''textContent'', Some (''Tech Stack: '' @ join '', '' tags))]"

text \<open>One entry of the details list. The source sets \<open>li.innerHTML\<close> to the detail
  text and, for a link, runs \<open>li.innerHTML +=\<close> on the link markup: this reads
  \<open>innerHTML\<close> back (nothing for an element without children), appends the link markup
  and assigns the result.\<close>

definition detail_entry :: "browser \<Rightarrow> detail \<Rightarrow> node" where
  "detail_entry br dt =
     (let li0 = set_innerHTML (detail_text dt) (createElement ''li'' []);
          li = (case detail_link dt of
                  None \<Rightarrow> li0
                | Some l \<Rightarrow>
                    set_innerHTML
                      ((if detail_text dt = [] then [] else reserialise br (detail_text dt)) @
                       '' (<a href=\"'' @ link_url l @ ''\" target=\"_blank\">'' @
                       link_text l @ ''</a>)'')
                      li0)
      in case detail_tags dt of
           None \<Rightarrow> li
         | Some tags \<Rightarrow>
             (if tags = [] then li
              else appendChild (appendChild li (createElement ''br'' [])) (techStack tags)))"

definition timeline_entry :: "browser \<Rightarrow> timeline_item \<Rightarrow> node" where
  "timeline_entry br item =
     (let itemDiv = createElement ''div'' [(''className'', Some ''job'')];
          d1 = appendChild itemDiv (createElement ''h3'' [(''textContent'', Some (ti_title item))]);
          d2 = (case ti_subtitle item of
                  None \<Rightarrow> d1
                | Some st \<Rightarrow>
                    appendChild d1
                      (case sub_links st of
                         None \<Rightarrow> set_textContent (sub_text st) (createElement ''h4'' [])
                       | Some links \<Rightarrow>
                           (if links = [] then set_textContent (sub_text st) (createElement ''h4'' [])
                            else set_innerHTML (renderLinkedText (sub_text st) links)
                                   (createElement ''h4'' []))));
          d3 = (if truthy (ti_period item)
                then appendChild d2
                       (createElement ''p'' [(''className'', Some ''date''), (''textContent'', ti_period item)])
                else d2)
      in case ti_details item of
           None \<Rightarrow> d3
         | Some details \<Rightarrow>
             (if details = [] then d3
              else appendChild d3
                     (foldl appendChild (createElement ''ul'' []) (map (detail_entry br) details))))"

definition card_entry :: "card \<Rightarrow> node" where
  "card_entry item =
     (let cardDiv = createElement ''div'' [(''className'', Some ''project'')];
          c1 = appendChild cardDiv (createElement ''h3'' [(''textContent'', Some (card_title item))]);
          c2 = appendChild c1 (createElement ''p'' [(''textContent'', Some (card_content item))])
      in case card_tags item of
           None \<Rightarrow> c2
         | Some tags \<Rightarrow>
             (if tags = [] then c2
              else appendChild c2 (appendChild (createElement ''p'' []) (techStack tags))))"

definition contact_entry :: "contact \<Rightarrow> node" where
  "contact_entry c =
     (let p = createElement ''p'' [];
          p1 = appendChild p (createElement ''i'' [(''className'', Some (icon c))]);
          link = createElement ''a''
                   [(''href'', Some (url c)), (''textContent'', Some (label c)),
                    (''target'', target_of (url c))]
      in appendChild p1 link)"

text \<open>\<open>Object.entries\<close> of an object whose properties were inserted in the given
  order: the keys that are array indices (canonical decimal numerals below \<open>2^32 - 1\<close>)
  come first, in ascending numeric order, then the other keys in insertion order.\<close>

definition is_digit :: "char \<Rightarrow> bool" where
  "is_digit c = (c \<in> set ''0123456789'')"

definition digits_value :: "string \<Rightarrow> int" where
  "digits_value s = foldl (\<lambda>n c. 10 * n + (of_char c - 48)) 0 s"

definition is_array_index :: "string \<Rightarrow> bool" where
  "is_array_index k =
     (k \<noteq> [] \<and> list_all is_digit k \<and> (k = ''0'' \<or> hd k \<noteq> CHR ''0'') \<and>
      digits_value k < 4294967295)"

definition object_entries :: "(string \<times> 'v) list \<Rightarrow> (string \<times> 'v) list" where
  "object_entries kvs =
     sort_key (\<lambda>kv. digits_value (fst kv)) (filter (\<lambda>kv. is_array_index (fst kv)) kvs) @
     filter (\<lambda>kv. \<not> is_array_index (fst kv)) kvs"

definition category_line :: "string \<times> string list \<Rightarrow> node" where
  "category_line entry =
     set_innerHTML (''<strong>'' @ fst entry @ '':</strong> '' @ join '', '' (snd entry))
       (createElement ''p'' [])"

text \<open>
  The renderers proper. Each returns the container with its content appended, or the
  error it throws; in every throwing case the throw comes before the renderer's first
  \<open>appendChild\<close> on the container. A payload of another section type is handled as the
  JavaScript handles it: a non-empty string or an object has no \<open>forEach\<close>, a missing
  text property leaves its element empty, \<open>join\<close> or \<open>startsWith\<close> on a missing
  property throws.
\<close>

definition renderTimelineSection :: "browser \<Rightarrow> node \<Rightarrow> doc_section \<Rightarrow> js_error + node" where
  "renderTimelineSection br container sec =
     (case sec_items sec of
        ItemsAbsent \<Rightarrow> Inr container
      | ItemsString s \<Rightarrow> if s = [] then Inr container else Inl TypeError
      | ItemsObject kvs \<Rightarrow> Inl TypeError
      | ItemsTimeline xs \<Rightarrow> Inr (foldl appendChild container (map (timeline_entry br) xs))
      | ItemsCards xs \<Rightarrow>
          Inr (foldl appendChild container
                 (map (\<lambda>c. timeline_entry br \<lparr>ti_title = card_title c, ti_subtitle = None,
                                            ti_period = None, ti_details = None\<rparr>) xs))
      | ItemsContacts xs \<Rightarrow>
          Inr (foldl appendChild container
                 (map (\<lambda>c. timeline_entry br \<lparr>ti_title = [], ti_subtitle = None,
                                            ti_period = None, ti_details = None\<rparr>) xs)))"

definition renderCategoriesSection :: "node \<Rightarrow> doc_section \<Rightarrow> js_error + node" where
  "renderCategoriesSection container sec =
     (case sec_items sec of
        ItemsAbsent \<Rightarrow> Inr container
      | ItemsString s \<Rightarrow> if s = [] then Inr container else Inl TypeError
      | ItemsObject kvs \<Rightarrow>
          Inr (foldl appendChild container (map category_line (object_entries kvs)))
      | ItemsTimeline xs \<Rightarrow> if xs = [] then Inr container else Inl TypeError
      | ItemsCards xs \<Rightarrow> if xs = [] then Inr container else Inl TypeError
      | ItemsContacts xs \<Rightarrow> if xs = [] then Inr container else Inl TypeError)"

definition renderCardsSection :: "node \<Rightarrow> doc_section \<Rightarrow> js_error + node" where
  "renderCardsSection container sec =
     (case sec_items sec of
        ItemsAbsent \<Rightarrow> Inr container
      | ItemsString s \<Rightarrow> if s = [] then Inr container else Inl TypeError
      | ItemsObject kvs \<Rightarrow> Inl TypeError
      | ItemsCards xs \<Rightarrow> Inr (foldl appendChild container (map card_entry xs))
      | ItemsTimeline xs \<Rightarrow>
          Inr (foldl appendChild container
                 (map (\<lambda>t. card_entry \<lparr>card_title = ti_title t, card_content = [],
                                        card_tags = None\<rparr>) xs))
      | ItemsContacts xs \<Rightarrow>
          Inr (foldl appendChild container
                 (map (\<lambda>c. card_entry \<lparr>card_title = [], card_content = [],
                                        card_tags = None\<rparr>) xs)))"

text \<open>The contact list a contact section resolves to: \<open>Inr None\<close> is a falsy value
  (nothing is listed), \<open>Inl\<close> a value on which the loop throws.\<close>

definition resolve_contacts :: "data_document \<Rightarrow> doc_section \<Rightarrow> js_error + contact list option" where
  "resolve_contacts d sec =
     (case sec_items sec of
        ItemsString s \<Rightarrow>
          (if s = ''contacts'' then Inr (contacts d)
           else if s = [] then Inr None else Inl TypeError)
      | ItemsContacts cs \<Rightarrow> Inr (Some cs)
      | ItemsAbsent \<Rightarrow> Inr None
      | ItemsObject kvs \<Rightarrow> Inl TypeError
      | ItemsTimeline xs \<Rightarrow> if xs = [] then Inr (Some []) else Inl TypeError
      | ItemsCards xs \<Rightarrow> if xs = [] then Inr (Some []) else Inl TypeError)"

definition renderContactSection :: "data_document \<Rightarrow> node \<Rightarrow> doc_section \<Rightarrow> js_error + node" where
  "renderContactSection d container sec =
     (let contactLinksDiv = createElement ''div'' [(''className'', Some ''contact-links'')]
      in case resolve_contacts d sec of
           Inl e \<Rightarrow> Inl e
         | Inr None \<Rightarrow> Inr (appendChild container contactLinksDiv)
         | Inr (Some cs) \<Rightarrow>
             Inr (appendChild container
                    (foldl appendChild contactLinksDiv (map contact_entry cs))))"

text \<open>The dispatch table \<open>this.renderers\<close>, read with \<open>this.renderers[section.type]\<close>.
  The table is a plain object, so the lookup also finds the properties it inherits from
  \<open>Object.prototype\<close>: called as a renderer, \<open>constructor\<close> and \<open>toString\<close> return
  without effect and the others throw.\<close>

definition renderers ::
    "browser \<Rightarrow> data_document \<Rightarrow> string \<Rightarrow> (node \<Rightarrow> doc_section \<Rightarrow> js_error + node) option" where
  "renderers br d t =
     (if t = ''text'' then Some (\<lambda>container sec. Inr (renderTextSection container sec))
      else if t = ''timeline'' then Some (renderTimelineSection br)
      else if t = ''categories'' then Some renderCategoriesSection
      else if t = ''cards'' then Some renderCardsSection
      else if t = ''contact'' then Some (renderContactSection d)
      else if t \<in> set [''constructor'', ''toString''] then Some (\<lambda>container sec. Inr container)
      else if t \<in> set [''__defineGetter__'', ''__defineSetter__'', ''hasOwnProperty'',
                        ''__lookupGetter__'', ''__lookupSetter__'', ''isPrototypeOf'',
                        ''propertyIsEnumerable'', ''valueOf'', ''__proto__'', ''toLocaleString'']
           then Some (\<lambda>container sec. Inl TypeError)
      else None)"

subsection \<open>The section pass\<close>

text \<open>The heading rule of \<open>renderSections\<close>: the container's first \<open>h2\<close> descendant
  is taken, the container is emptied, and the heading (the old one with its text
  overwritten, or a new one) becomes its only child.\<close>

definition prepare_container :: "string \<Rightarrow> node \<Rightarrow> node" where
  "prepare_container title container =
     (case querySelector_in (has_tag ''h2'') container of
        Some h2 \<Rightarrow> appendChild (set_innerHTML [] container) (set_textContent title h2)
      | None \<Rightarrow>
          appendChild (set_innerHTML [] container)
            (createElement ''h2'' [(''textContent'', Some title)]))"

text \<open>
  The mount point of a section is looked up with the selector \<open>#\<close> followed by the
  section id. When the id is a CSS identifier (letters, digits, hyphens, underscores and
  non-ASCII characters, not starting with a digit, nor with a hyphen and a digit, nor being
  a lone hyphen), this is the id selector. When the id consists of such characters but is
  not an identifier (it is empty, or starts with a digit), the string is not a selector and
  \<open>document.querySelector\<close> throws a \<open>SyntaxError\<close>. Any other id (one holding a dot, a
  space, a bracket, an escape and so on) makes a selector of another kind, or none, and is
  left to the browser.
\<close>

definition is_letter :: "char \<Rightarrow> bool" where
  "is_letter c = (c \<in> set ''abcdefghijklmnopqrstuvwxyzABCDEFGHIJKLMNOPQRSTUVWXYZ'')"

definition is_name_start :: "char \<Rightarrow> bool" where
  "is_name_start c = (is_letter c \<or> c = CHR ''_'' \<or> 128 \<le> (of_char c :: int))"

definition is_name_char :: "char \<Rightarrow> bool" where
  "is_name_char c = (is_name_start c \<or> is_digit c \<or> c = CHR ''-'')"

fun css_identifier :: "string \<Rightarrow> bool" where
  "css_identifier [] = False"
| "css_identifier [c] = is_name_start c"
| "css_identifier (c # d # r) =
     ((is_name_start c \<or> (c = CHR ''-'' \<and> (is_name_start d \<or> d = CHR ''-''))) \<and>
      list_all is_name_char (d # r))"

definition mount_selector :: "browser \<Rightarrow> string \<Rightarrow> page \<Rightarrow> js_error + position option" where
  "mount_selector br i pg =
     (if css_identifier i then Inr (locate (has_id i) pg)
      else if list_all is_name_char i then Inl SyntaxError
      else select br (''#'' @ i) pg)"

text \<open>The container of a section is the first \<open>.container\<close> below the mount point;
  what the pass does to it happens in the page, below the element referred to.\<close>

definition put_container :: "position \<Rightarrow> node \<Rightarrow> page \<Rightarrow> page" where
  "put_container pos container pg =
     update_element pos (update_in (has_class ''container'') (\<lambda>old. container)) pg"

definition warn :: "string \<Rightarrow> page \<Rightarrow> page" where
  "warn msg pg = pg\<lparr>console := console pg @ [(Warn, msg)]\<rparr>"

definition log_error :: "string \<Rightarrow> page \<Rightarrow> page" where
  "log_error msg pg = pg\<lparr>console := console pg @ [(Error, msg)]\<rparr>"

text \<open>The body of the \<open>forEach\<close> callback of \<open>renderSections\<close>, for one section: the
  page afterwards and the error thrown, if any. A reference that leads to no element of
  the page counts as no match.\<close>

definition renderSection ::
    "browser \<Rightarrow> data_document \<Rightarrow> doc_section \<Rightarrow> page \<Rightarrow> page \<times> js_error option" where
  "renderSection br d sec pg =
     (case mount_selector br (sec_id sec) pg of
        Inl e \<Rightarrow> (pg, Some e)
      | Inr None \<Rightarrow> (pg, None)
      | Inr (Some pos) \<Rightarrow>
          (case element_at pg pos of
             None \<Rightarrow> (pg, None)
           | Some sectionElement \<Rightarrow>
               (case querySelector_in (has_class ''container'') sectionElement of
                  None \<Rightarrow> (pg, None)
                | Some container \<Rightarrow>
                    (let c1 = prepare_container (sec_title sec) container
                     in case renderers br d (sec_type sec) of
                          Some renderer \<Rightarrow>
                            (case renderer c1 sec of
                               Inr c2 \<Rightarrow> (put_container pos c2 pg, None)
                             | Inl e \<Rightarrow> (put_container pos c1 pg, Some e))
                        | None \<Rightarrow>
                            (warn (''No renderer found for section type: '' @ sec_type sec)
                               (put_container pos c1 pg), None)))))"

text \<open>\<open>forEach\<close> over the sections: an error thrown by one callback ends the loop.\<close>

fun forEach_section ::
    "browser \<Rightarrow> data_document \<Rightarrow> doc_section list \<Rightarrow> page \<Rightarrow> page \<times> js_error option" where
  "forEach_section br d [] pg = (pg, None)"
| "forEach_section br d (sec # rest) pg =
     (case renderSection br d sec pg of
        (pg1, Some e) \<Rightarrow> (pg1, Some e)
      | (pg1, None) \<Rightarrow> forEach_section br d rest pg1)"

definition renderSections :: "browser \<Rightarrow> data_document \<Rightarrow> page \<Rightarrow> page \<times> js_error option" where
  "renderSections br d pg =
     (case sections d of
        None \<Rightarrow> (pg, None)
      | Some secs \<Rightarrow> forEach_section br d secs pg)"

subsection \<open>Navigation and theme\<close>

definition nav_entry :: "doc_section \<Rightarrow> node" where
  "nav_entry sec =
     appendChild (createElement ''li'' [])
       (createElement ''a''
          [(''href'', Some (''#'' @ sec_id sec)), (''className'', Some ''nav-link''),
           (''textContent'', Some (sec_title sec))])"

definition generateNavigation :: "data_document \<Rightarrow> page \<Rightarrow> page" where
  "generateNavigation d pg =
     (if \<not> nav_enabled d then pg
      else (case sections d of
              None \<Rightarrow> pg
            | Some secs \<Rightarrow> update_page (has_class ''nav-menu'') (refill (map nav_entry secs)) pg))"

definition setProperty :: "string \<Rightarrow> string option \<Rightarrow> page \<Rightarrow> page" where
  "setProperty name v pg =
     (if truthy v then pg\<lparr>root_style := set_prop name (the v) (root_style pg)\<rparr> else pg)"

definition applyTheme :: "data_document \<Rightarrow> page \<Rightarrow> page" where
  "applyTheme d pg =
     (case theme d of
        None \<Rightarrow> pg
      | Some th \<Rightarrow>
          (let pg1 = setProperty ''--accent-color'' (colors_primary th) pg;
               pg2 = setProperty ''--dark-accent-color'' (colors_primaryDark th) pg1;
               pg3 = (if truthy (fonts_primary th)
                      then pg2\<lparr>body_fontFamily := fonts_primary th\<rparr> else pg2)
           in setProperty ''--container-width'' (layout_containerWidth th) pg3))"

subsection \<open>The render pass and the initialization sequence\<close>

text \<open>\<open>renderPortfolio\<close> on \<open>this.data\<close> (\<open>None\<close>: no document was loaded). The last
  call of the source, \<open>initializeNavigation\<close>, attaches listeners and marks the link of the
  section under the current scroll position; it depends on the layout of the page and is
  left out.\<close>

definition renderPortfolio ::
    "browser \<Rightarrow> data_document option \<Rightarrow> page \<Rightarrow> page \<times> js_error option" where
  "renderPortfolio br dat pg =
     (case dat of
        None \<Rightarrow> (pg, None)
      | Some d \<Rightarrow>
          (case renderSections br d (renderHeader d (updateMeta d pg)) of
             (pg1, Some e) \<Rightarrow> (pg1, Some e)
           | (pg1, None) \<Rightarrow> (generateNavigation d pg1, None)))"

text \<open>What the request for \<open>./data.json\<close> can come to: the request fails, the status
  is not a success, the body is not JSON, or the body parses: to \<open>null\<close>, to another
  falsy value, or to a document.\<close>

datatype json_body = JsonNull | JsonFalsy | JsonDocument data_document

datatype fetch_result = NetworkFailure | HttpError nat | MalformedBody | ParsedBody json_body

definition loadData :: "fetch_result \<Rightarrow> page \<Rightarrow> page \<times> (js_error + json_body)" where
  "loadData fr pg =
     (case fr of
        NetworkFailure \<Rightarrow> (warn ''Could not load data.json:'' pg, Inl TypeError)
      | HttpError status \<Rightarrow> (warn ''Could not load data.json:'' pg, Inl (HttpStatusError status))
      | MalformedBody \<Rightarrow> (warn ''Could not load data.json:'' pg, Inl SyntaxError)
      | ParsedBody body \<Rightarrow> (pg, Inr body))"

definition data_of :: "json_body \<Rightarrow> data_document option" where
  "data_of body = (case body of JsonDocument d \<Rightarrow> Some d | _ \<Rightarrow> None)"

text \<open>\<open>init\<close>: every error is caught and logged. With \<open>this.data\<close> equal to \<open>null\<close>,
  \<open>applyTheme\<close> throws on reading \<open>this.data.theme\<close>; with another falsy value the
  three calls return without effect.\<close>

definition init :: "browser \<Rightarrow> fetch_result \<Rightarrow> page \<Rightarrow> page" where
  "init br fr pg =
     (case loadData fr pg of
        (pg0, Inl e) \<Rightarrow> log_error ''Failed to initialize portfolio:'' pg0
      | (pg0, Inr body) \<Rightarrow>
          (case renderPortfolio br (data_of body) pg0 of
             (pg1, Some e) \<Rightarrow> log_error ''Failed to initialize portfolio:'' pg1
           | (pg1, None) \<Rightarrow>
               (case body of
                  JsonNull \<Rightarrow> log_error ''Failed to initialize portfolio:'' pg1
                | JsonFalsy \<Rightarrow> pg1
                | JsonDocument d \<Rightarrow> generateNavigation d (applyTheme d pg1))))"

section \<open>Auxiliary notions and example inputs\<close>

text \<open>A selector is shallow when it looks at the tag and the properties of an element
  only, as the id, class, tag and attribute selectors of the renderer do.\<close>

definition shallow :: "(node \<Rightarrow> bool) \<Rightarrow> bool" where
  "shallow P = (\<forall>t a cs cs'. P (Element t a cs) = P (Element t a cs'))"

text \<open>A page whose navigation menu holds one static link, and a document with three
  sections \<open>a\<close>, \<open>b\<close>, \<open>c\<close>.\<close>

definition nav_example_page :: page where
  "nav_example_page =
     \<lparr>doc_title = ''Portfolio'', doc_head = [],
      doc_body =
        [Element ''ul'' [(''className'', ''nav-menu'')]
           [Element ''li'' []
              [Element ''a'' [(''href'', ''#old''), (''className'', ''nav-link'')]
                 [TextNode ''Old'']]]],
      root_style = [], body_fontFamily = None, console = []\<rparr>"

definition abc_sections :: "doc_section list" where
  "abc_sections =
     [\<lparr>sec_id = ''a'', sec_title = ''A'', sec_type = ''text'', sec_items = ItemsAbsent,
       sec_content = Some ''x''\<rparr>,
      \<lparr>sec_id = ''b'', sec_title = ''B'', sec_type = ''text'', sec_items = ItemsAbsent,
       sec_content = Some ''y''\<rparr>,
      \<lparr>sec_id = ''c'', sec_title = ''C'', sec_type = ''text'', sec_items = ItemsAbsent,
       sec_content = Some ''z''\<rparr>]"

definition abc_document :: data_document where
  "abc_document =
     \<lparr>meta = None, personal = None, contacts = None, theme = None, nav_enabled = True,
      sections = Some abc_sections\<rparr>"

text \<open>A page with three section mounts (one whose heading sits inside a nested element,
  one without a \<open>.container\<close>, one without a heading), a section with a given id and
  type, and a document without any field.\<close>

definition section_example_page :: page where
  "section_example_page =
     \<lparr>doc_title = ''Portfolio'', doc_head = [],
      doc_body =
        [Element ''section'' [(''id'', ''about'')]
           [Element ''div'' [(''className'', ''container'')]
              [Element ''div'' []
                 [Element ''h2'' [(''className'', ''heading'')] [TextNode ''Static heading'']],
               Element ''p'' [] [TextNode ''static text'']]],
         Element ''section'' [(''id'', ''bare'')]
           [Element ''p'' [] [TextNode ''no container'']],
         Element ''section'' [(''id'', ''plain'')]
           [Element ''div'' [(''className'', ''wide container'')]
              [Element ''p'' [] [TextNode ''static'']]]],
      root_style = [], body_fontFamily = None, console = []\<rparr>"

definition text_section :: "string \<Rightarrow> string \<Rightarrow> doc_section" where
  "text_section i ty =
     \<lparr>sec_id = i, sec_title = ''About me'', sec_type = ty, sec_items = ItemsAbsent,
      sec_content = Some ''Hello''\<rparr>"

definition empty_document :: data_document where
  "empty_document =
     \<lparr>meta = None, personal = None, contacts = None, theme = None, nav_enabled = False,
      sections = None\<rparr>"

text \<open>The contact of the specification's example with a contact section that refers to
  the top-level list, a categories section, and a link whose url holds a replacement
  pattern.\<close>

definition mail_contact :: contact where
  "mail_contact = \<lparr>label = ''Mail'', url = ''mailto:a@b.com'', icon = ''fa-envelope''\<rparr>"

definition mail_document :: data_document where
  "mail_document =
     \<lparr>meta = None, personal = None, contacts = Some [mail_contact], theme = None,
      nav_enabled = False, sections = None\<rparr>"

definition contact_section :: doc_section where
  "contact_section =
     \<lparr>sec_id = ''contact'', sec_title = ''Contact'', sec_type = ''contact'',
      sec_items = ItemsString ''contacts'', sec_content = None\<rparr>"

definition categories_section :: "(string \<times> string list) list \<Rightarrow> doc_section" where
  "categories_section kvs =
     \<lparr>sec_id = ''skills'', sec_title = ''Skills'', sec_type = ''categories'',
      sec_items = ItemsObject kvs, sec_content = None\<rparr>"

definition dollar_link :: text_link where
  "dollar_link = \<lparr>link_text = ''Foo'', link_url = ''http://x.io/?q=$&''\<rparr>"

text \<open>What the pass makes of a container; the nodes a section's renderer appends (those
  it appends to an element without children); whether it throws.\<close>

definition render_container :: "browser \<Rightarrow> data_document \<Rightarrow> doc_section \<Rightarrow> node \<Rightarrow> node" where
  "render_container br d sec c =
     (let c1 = prepare_container (sec_title sec) c
      in case renderers br d (sec_type sec) of
           None \<Rightarrow> c1
         | Some r \<Rightarrow> (case r c1 sec of Inr c2 \<Rightarrow> c2 | Inl e \<Rightarrow> c1))"

definition section_output :: "browser \<Rightarrow> data_document \<Rightarrow> doc_section \<Rightarrow> node list" where
  "section_output br d sec =
     (case renderers br d (sec_type sec) of
        None \<Rightarrow> []
      | Some r \<Rightarrow> (case r (Element [] [] []) sec of Inr c \<Rightarrow> children_of c | Inl e \<Rightarrow> []))"

definition throws :: "browser \<Rightarrow> data_document \<Rightarrow> doc_section \<Rightarrow> bool" where
  "throws br d sec =
     (case renderers br d (sec_type sec) of
        None \<Rightarrow> False
      | Some r \<Rightarrow> (case r (Element [] [] []) sec of Inr c \<Rightarrow> False | Inl e \<Rightarrow> True))"


text \<open>The type names with a renderer of their own, and the names the lookup in the
  table finds on \<open>Object.prototype\<close>.\<close>

definition registered_types :: "string list" where
  "registered_types = [''text'', ''timeline'', ''categories'', ''cards'', ''contact'']"

definition object_prototype_names :: "string list" where
  "object_prototype_names =
     [''constructor'', ''toString'', ''__defineGetter__'', ''__defineSetter__'',
      ''hasOwnProperty'', ''__lookupGetter__'', ''__lookupSetter__'', ''isPrototypeOf'',
      ''propertyIsEnumerable'', ''valueOf'', ''__proto__'', ''toLocaleString'']"

text \<open>A browser whose \<open>select\<close> finds nothing and that reads markup back as it was
  assigned; a page with the mounts \<open>2024\<close>, without a \<open>.container\<close>, and \<open>about\<close>; a
  document with a section for each.\<close>

definition plain_browser :: browser where
  "plain_browser = \<lparr>select = (\<lambda>s pg. Inr None), reserialise = (\<lambda>s. s)\<rparr>"

definition numeric_id_page :: page where
  "numeric_id_page =
     \<lparr>doc_title = ''Portfolio'', doc_head = [],
      doc_body =
        [Element ''section'' [(''id'', ''2024'')]
           [Element ''p'' [] [TextNode ''no container'']],
         Element ''section'' [(''id'', ''about'')]
           [Element ''div'' [(''className'', ''container'')] []]],
      root_style = [], body_fontFamily = None, console = []\<rparr>"

definition numeric_id_document :: data_document where
  "numeric_id_document =
     \<lparr>meta = None, personal = None, contacts = None, theme = None, nav_enabled = False,
      sections = Some [text_section ''2024'' ''text'', text_section ''about'' ''text'']\<rparr>"

section \<open>Properties of the theme manager\<close>










section \<open>Properties of the renderer\<close>

text \<open>
  Claim C1. When the load fails (the request fails, the status is not a success, or the
  body is malformed), \<open>init\<close> leaves every part of the page as it was and adds two console
  entries, the warning of \<open>loadData\<close> and the error of \<open>init\<close>; and \<open>renderPortfolio\<close>
  without a loaded document returns the page unchanged.
\<close>

theorem failed_load_leaves_page:
  "init br NetworkFailure pg =
     pg\<lparr>console := console pg @ [(Warn, ''Could not load data.json:''),
                                     (Error, ''Failed to initialize portfolio:'')]\<rparr> \<and>
   init br (HttpError status) pg =
     pg\<lparr>console := console pg @ [(Warn, ''Could not load data.json:''),
                                     (Error, ''Failed to initialize portfolio:'')]\<rparr> \<and>
   init br MalformedBody pg =
     pg\<lparr>console := console pg @ [(Warn, ''Could not load data.json:''),
                                     (Error, ''Failed to initialize portfolio:'')]\<rparr> \<and>
   renderPortfolio br None pg = (pg, None)"
  by (simp add: init_def loadData_def warn_def log_error_def renderPortfolio_def)

subsection \<open>Selecting and updating\<close>

lemma shallow_selectors: "shallow (has_id i)" "shallow (has_class c)" "shallow (has_tag t)"
  "shallow is_meta_description"
  by (simp_all add: shallow_def has_id_def has_class_def has_tag_def is_element_def
        is_meta_description_def)

lemma shallowD: "shallow P \<Longrightarrow> P (Element t a cs) = P (Element t a cs')"
  by (simp add: shallow_def)

lemma find_satisfies:
  "find_node P n = Some m \<Longrightarrow> P m \<and> is_element m"
  "find_forest P ns = Some m \<Longrightarrow> P m \<and> is_element m"
  by (induction P n and P ns rule: find_node_find_forest.induct)
     (auto simp: is_element_def split: if_splits option.splits)

lemma update_none_iff:
  "(update_node P f n = None) = (find_node P n = None)"
  "(update_forest P f ns = None) = (find_forest P ns = None)"
  by (induction P f n and P f ns rule: update_node_update_forest.induct)
     (auto split: option.splits)

lemma find_after_update:
  "find_node P n = Some m \<Longrightarrow> P (f m) \<Longrightarrow> is_element (f m) \<Longrightarrow> shallow P \<Longrightarrow>
     \<exists>n'. update_node P f n = Some n' \<and> find_node P n' = Some (f m)"
  "find_forest P ns = Some m \<Longrightarrow> P (f m) \<Longrightarrow> is_element (f m) \<Longrightarrow> shallow P \<Longrightarrow>
     \<exists>ns'. update_forest P f ns = Some ns' \<and> find_forest P ns' = Some (f m)"
proof (induction P f n and P f ns rule: update_node_update_forest.induct)
  case (1 P f t a cs)
  show ?case
  proof (cases "P (Element t a cs)")
    case True
    with 1 show ?thesis
      by (cases "f (Element t a cs)") (auto simp: is_element_def)
  next
    case False
    with 1 show ?thesis by (auto dest: shallowD)
  qed
next
  case (5 P f n ns)
  show ?case
  proof (cases "find_node P n")
    case None
    then have u: "update_node P f n = None"
      by (simp add: update_none_iff)
    from None 5(3) have "find_forest P ns = Some m" by simp
    from 5(2)[OF u this 5(4) 5(5) 5(6)] obtain ns' where
      "update_forest P f ns = Some ns'" "find_forest P ns' = Some (f m)" by blast
    with u None show ?thesis by simp
  next
    case (Some k)
    with 5(3) have k: "k = m" by simp
    from 5(1)[OF Some[unfolded k] 5(4) 5(5) 5(6)] obtain n' where
      "update_node P f n = Some n'" "find_node P n' = Some (f m)" by blast
    then show ?thesis by simp
  qed
qed simp_all


lemma querySelector_update_page:
  assumes "querySelector P pg = Some m" "P (f m)" "is_element (f m)" "shallow P"
  shows "querySelector P (update_page P f pg) = Some (f m)"
proof (cases "find_forest P (doc_head pg)")
  case None
  with assms(1) have b: "find_forest P (doc_body pg) = Some m"
    by (simp add: querySelector_def)
  from find_after_update(2)[of P "doc_body pg" m f, OF b assms(2,3,4)] obtain b' where
    "update_forest P f (doc_body pg) = Some b'" "find_forest P b' = Some (f m)" by blast
  moreover from None have "update_forest P f (doc_head pg) = None"
    by (simp add: update_none_iff)
  ultimately show ?thesis using None
    by (simp add: querySelector_def update_page_def)
next
  case (Some k)
  with assms(1) have "find_forest P (doc_head pg) = Some m"
    by (simp add: querySelector_def)
  from find_after_update(2)[of P "doc_head pg" m f, OF this assms(2,3,4)] obtain h' where
    "update_forest P f (doc_head pg) = Some h'" "find_forest P h' = Some (f m)" by blast
  then show ?thesis
    by (simp add: querySelector_def update_page_def)
qed

lemma update_page_no_match:
  assumes "querySelector P pg = None"
  shows "update_page P f pg = pg"
proof -
  from assms have "find_forest P (doc_head pg) = None" "find_forest P (doc_body pg) = None"
    by (simp_all add: querySelector_def split: option.splits)
  then have "update_forest P f (doc_head pg) = None" "update_forest P f (doc_body pg) = None"
    by (simp_all add: update_none_iff)
  then show ?thesis
    by (simp add: update_page_def)
qed

lemma querySelector_console [simp]:
  "querySelector P (pg\<lparr>console := lg\<rparr>) = querySelector P pg"
  by (simp add: querySelector_def split: option.splits)

lemma foldl_appendChild:
  "foldl appendChild (Element t a cs) new = Element t a (cs @ new)"
  by (induction new arbitrary: cs) (simp_all add: appendChild_def)

lemma refill_element:
  "refill new (Element t a cs) = Element t a new"
  by (simp add: refill_def set_innerHTML_def foldl_appendChild)

lemma refill_set_children:
  "is_element el \<Longrightarrow> refill new el = set_children new el"
  by (cases el) (simp_all add: refill_element is_element_def)

subsection \<open>Shapes of the generated elements\<close>

lemma nav_entry_shape:
  "nav_entry sec =
     Element ''li'' []
       [Element ''a'' [(''href'', ''#'' @ sec_id sec), (''className'', ''nav-link'')]
          (if sec_title sec = [] then [] else [TextNode (sec_title sec)])]"
  by (simp add: nav_entry_def createElement_def appendChild_def set_textContent_def)

subsection \<open>Navigation\<close>

text \<open>
  Claim C3. Without \<open>config.navigation.enabled\<close>, \<open>generateNavigation\<close> changes
  nothing. With it, and with a section list, the navigation menu of the page afterwards is
  the menu element with its former children replaced by one entry per section, in the order
  of the list; the entry of a section is a list item holding one link whose \<open>href\<close> is
  \<open>#\<close> followed by the section id and whose text is the section title.
\<close>

theorem generateNavigation_links:
  "(\<not> nav_enabled d \<longrightarrow> generateNavigation d pg = pg) \<and>
   (nav_enabled d \<and> sections d = Some secs \<and>
    querySelector (has_class ''nav-menu'') pg = Some nav \<longrightarrow>
      querySelector (has_class ''nav-menu'') (generateNavigation d pg) =
        Some (set_children (map nav_entry secs) nav)) \<and>
   nav_entry sec =
     Element ''li'' []
       [Element ''a'' [(''href'', ''#'' @ sec_id sec), (''className'', ''nav-link'')]
          (if sec_title sec = [] then [] else [TextNode (sec_title sec)])]"
proof (intro conjI impI)
  assume "\<not> nav_enabled d"
  then show "generateNavigation d pg = pg"
    by (simp add: generateNavigation_def)
next
  assume a: "nav_enabled d \<and> sections d = Some secs \<and>
    querySelector (has_class ''nav-menu'') pg = Some nav"
  then have q: "querySelector (has_class ''nav-menu'') pg = Some nav" by simp
  then have "find_forest (has_class ''nav-menu'') (doc_head pg) = Some nav \<or>
             find_forest (has_class ''nav-menu'') (doc_body pg) = Some nav"
    by (auto simp: querySelector_def split: option.splits)
  then have n: "has_class ''nav-menu'' nav \<and> is_element nav"
    using find_satisfies(2) by blast
  then obtain t ps cs where nav: "nav = Element t ps cs"
    by (cases nav) (simp_all add: is_element_def)
  have r: "refill (map nav_entry secs) nav = set_children (map nav_entry secs) nav"
    using n by (simp add: refill_set_children)
  have "has_class ''nav-menu'' (refill (map nav_entry secs) nav)"
    using n by (simp add: nav refill_element has_class_def is_element_def)
  moreover have "is_element (refill (map nav_entry secs) nav)"
    by (simp add: nav refill_element is_element_def)
  ultimately have "querySelector (has_class ''nav-menu'')
         (update_page (has_class ''nav-menu'') (refill (map nav_entry secs)) pg) =
       Some (refill (map nav_entry secs) nav)"
    using querySelector_update_page[OF q] shallow_selectors(2) by blast
  with a r show "querySelector (has_class ''nav-menu'') (generateNavigation d pg) =
        Some (set_children (map nav_entry secs) nav)"
    by (simp add: generateNavigation_def)
next
  show "nav_entry sec =
     Element ''li'' []
       [Element ''a'' [(''href'', ''#'' @ sec_id sec), (''className'', ''nav-link'')]
          (if sec_title sec = [] then [] else [TextNode (sec_title sec)])]"
    by (rule nav_entry_shape)
qed


lemma nav_example_query:
  "querySelector (has_class ''nav-menu'') nav_example_page =
     Some (Element ''ul'' [(''className'', ''nav-menu'')]
           [Element ''li'' []
              [Element ''a'' [(''href'', ''#old''), (''className'', ''nav-link'')]
                 [TextNode ''Old'']]])"
  by (simp add: nav_example_page_def querySelector_def has_class_def is_element_def
        class_tokens_def is_ws_def)

text \<open>Claim C3 on three sections with ids \<open>a\<close>, \<open>b\<close>, \<open>c\<close>: the menu ends with
  exactly three links, to \<open>#a\<close>, \<open>#b\<close> and \<open>#c\<close> in that order; with navigation
  disabled the page is unchanged.\<close>

theorem generateNavigation_links_witness:
  "querySelector (has_class ''nav-menu'') (generateNavigation abc_document nav_example_page) =
     Some (Element ''ul'' [(''className'', ''nav-menu'')]
            [Element ''li'' []
               [Element ''a'' [(''href'', ''#a''), (''className'', ''nav-link'')] [TextNode ''A'']],
             Element ''li'' []
               [Element ''a'' [(''href'', ''#b''), (''className'', ''nav-link'')] [TextNode ''B'']],
             Element ''li'' []
               [Element ''a'' [(''href'', ''#c''), (''className'', ''nav-link'')] [TextNode ''C'']]]) \<and>
   generateNavigation (abc_document\<lparr>nav_enabled := False\<rparr>) nav_example_page = nav_example_page"
  using generateNavigation_links
          [of abc_document nav_example_page abc_sections
              "Element ''ul'' [(''className'', ''nav-menu'')]
                 [Element ''li'' []
                    [Element ''a'' [(''href'', ''#old''), (''className'', ''nav-link'')]
                       [TextNode ''Old'']]]"]
        generateNavigation_links [of "abc_document\<lparr>nav_enabled := False\<rparr>" nav_example_page]
        nav_example_query
  by (simp add: abc_document_def abc_sections_def nav_entry_shape)

subsection \<open>Contact sections\<close>

lemma contact_entry_shape:
  "contact_entry c =
     Element ''p'' []
       [Element ''i'' [(''className'', icon c)] [],
        Element ''a''
          ((''href'', url c) # (if startsWith (url c) ''http'' then [(''target'', ''_blank'')] else []))
          (if label c = [] then [] else [TextNode (label c)])]"
  by (simp add: contact_entry_def createElement_def appendChild_def set_textContent_def
        target_of_def Let_def)

text \<open>
  Claim C4. A contact section whose \<open>items\<close> is the string \<open>contacts\<close> lists the
  document's top-level contacts; one whose \<open>items\<close> is a contact list lists that list.
  The renderer appends one \<open>div.contact-links\<close> holding one entry per contact, in order:
  a paragraph with the icon and one link to the contact's url, labelled with its label, and
  carrying \<open>target="_blank"\<close> exactly when the url starts with \<open>http\<close>.
\<close>

theorem contact_section_links:
  "(sec_items sec = ItemsString ''contacts'' \<and> contacts d = Some cs \<longrightarrow>
      renderContactSection d (Element t a old) sec =
        Inr (Element t a
               (old @ [Element ''div'' [(''className'', ''contact-links'')] (map contact_entry cs)]))) \<and>
   (sec_items sec = ItemsContacts cs \<longrightarrow>
      renderContactSection d (Element t a old) sec =
        Inr (Element t a
               (old @ [Element ''div'' [(''className'', ''contact-links'')] (map contact_entry cs)]))) \<and>
   contact_entry c =
     Element ''p'' []
       [Element ''i'' [(''className'', icon c)] [],
        Element ''a''
          ((''href'', url c) # (if startsWith (url c) ''http'' then [(''target'', ''_blank'')] else []))
          (if label c = [] then [] else [TextNode (label c)])] \<and>
   renderers br d ''contact'' = Some (renderContactSection d)"
proof (intro conjI impI)
  assume "sec_items sec = ItemsString ''contacts'' \<and> contacts d = Some cs"
  then show "renderContactSection d (Element t a old) sec =
        Inr (Element t a
               (old @ [Element ''div'' [(''className'', ''contact-links'')] (map contact_entry cs)]))"
    by (simp add: renderContactSection_def resolve_contacts_def createElement_def
          foldl_appendChild appendChild_def)
next
  assume "sec_items sec = ItemsContacts cs"
  then show "renderContactSection d (Element t a old) sec =
        Inr (Element t a
               (old @ [Element ''div'' [(''className'', ''contact-links'')] (map contact_entry cs)]))"
    by (simp add: renderContactSection_def resolve_contacts_def createElement_def
          foldl_appendChild appendChild_def)
next
  show "contact_entry c =
     Element ''p'' []
       [Element ''i'' [(''className'', icon c)] [],
        Element ''a''
          ((''href'', url c) # (if startsWith (url c) ''http'' then [(''target'', ''_blank'')] else []))
          (if label c = [] then [] else [TextNode (label c)])]"
    by (rule contact_entry_shape)
next
  show "renderers br d ''contact'' = Some (renderContactSection d)"
    by (simp add: renderers_def)
qed

text \<open>Claim C4 on the specification's example (one top-level contact \<open>Mail\<close>, a
  section with \<open>items: "contacts"\<close>): exactly one link, without \<open>target\<close>; and on an
  inline list with an \<open>https\<close> url, which gets \<open>target="_blank"\<close>.\<close>

theorem contact_section_links_witness:
  "renderContactSection mail_document
      (Element ''div'' [(''className'', ''container'')] [Element ''h2'' [] [TextNode ''Contact'']])
      contact_section =
     Inr (Element ''div'' [(''className'', ''container'')]
            [Element ''h2'' [] [TextNode ''Contact''],
             Element ''div'' [(''className'', ''contact-links'')]
               [Element ''p'' []
                  [Element ''i'' [(''className'', ''fa-envelope'')] [],
                   Element ''a'' [(''href'', ''mailto:a@b.com'')] [TextNode ''Mail'']]]]) \<and>
   renderContactSection mail_document
      (Element ''div'' [(''className'', ''container'')] [])
      (contact_section\<lparr>sec_items :=
         ItemsContacts [\<lparr>label = ''Site'', url = ''https://a.example'', icon = ''fa-globe''\<rparr>]\<rparr>) =
     Inr (Element ''div'' [(''className'', ''container'')]
            [Element ''div'' [(''className'', ''contact-links'')]
               [Element ''p'' []
                  [Element ''i'' [(''className'', ''fa-globe'')] [],
                   Element ''a'' [(''href'', ''https://a.example''), (''target'', ''_blank'')]
                     [TextNode ''Site'']]]])"
proof -
  have h1: "sec_items contact_section = ItemsString ''contacts'' \<and>
            contacts mail_document = Some [mail_contact]"
    by (simp add: contact_section_def mail_document_def)
  have h2: "sec_items (contact_section\<lparr>sec_items :=
         ItemsContacts [\<lparr>label = ''Site'', url = ''https://a.example'', icon = ''fa-globe''\<rparr>]\<rparr>) =
         ItemsContacts [\<lparr>label = ''Site'', url = ''https://a.example'', icon = ''fa-globe''\<rparr>]"
    by simp
  note T1 = contact_section_links
      [of contact_section mail_document "[mail_contact]" "''div''" "[(''className'', ''container'')]"
          "[Element ''h2'' [] [TextNode ''Contact'']]" mail_contact]
  note T2 = contact_section_links
      [of "contact_section\<lparr>sec_items :=
         ItemsContacts [\<lparr>label = ''Site'', url = ''https://a.example'', icon = ''fa-globe''\<rparr>]\<rparr>"
         mail_document "[\<lparr>label = ''Site'', url = ''https://a.example'', icon = ''fa-globe''\<rparr>]"
         "''div''" "[(''className'', ''container'')]" "[]"
         "\<lparr>label = ''Site'', url = ''https://a.example'', icon = ''fa-globe''\<rparr>"]
  from T1 h1 have f1: "renderContactSection mail_document
      (Element ''div'' [(''className'', ''container'')] [Element ''h2'' [] [TextNode ''Contact'']])
      contact_section =
        Inr (Element ''div'' [(''className'', ''container'')]
               ([Element ''h2'' [] [TextNode ''Contact'']] @
                [Element ''div'' [(''className'', ''contact-links'')] (map contact_entry [mail_contact])]))"
    by blast
  from T1 have e1: "contact_entry mail_contact =
     Element ''p'' []
       [Element ''i'' [(''className'', ''fa-envelope'')] [],
        Element ''a'' [(''href'', ''mailto:a@b.com'')] [TextNode ''Mail'']]"
    by (simp add: mail_contact_def)
  from T2 h2 have f2: "renderContactSection mail_document
      (Element ''div'' [(''className'', ''container'')] [])
      (contact_section\<lparr>sec_items :=
         ItemsContacts [\<lparr>label = ''Site'', url = ''https://a.example'', icon = ''fa-globe''\<rparr>]\<rparr>) =
        Inr (Element ''div'' [(''className'', ''container'')]
               ([] @
                [Element ''div'' [(''className'', ''contact-links'')]
                   (map contact_entry [\<lparr>label = ''Site'', url = ''https://a.example'', icon = ''fa-globe''\<rparr>])]))"
    by blast
  from T2 have e2: "contact_entry \<lparr>label = ''Site'', url = ''https://a.example'', icon = ''fa-globe''\<rparr> =
     Element ''p'' []
       [Element ''i'' [(''className'', ''fa-globe'')] [],
        Element ''a'' [(''href'', ''https://a.example''), (''target'', ''_blank'')] [TextNode ''Site'']]"
    by simp
  from f1 f2 show ?thesis
    by (simp add: e1 e2)
qed


subsection \<open>Categories sections\<close>

lemma category_line_shape:
  "category_line (cat, its) =
     Element ''p'' [] [Markup (''<strong>'' @ cat @ '':</strong> '' @ join '', '' its)]"
  by (simp add: category_line_def createElement_def set_innerHTML_def)

lemma object_entries_plain:
  assumes "\<forall>k \<in> set (map fst kvs). \<not> is_array_index k"
  shows "object_entries kvs = kvs"
proof -
  from assms have "filter (\<lambda>kv. is_array_index (fst kv)) kvs = []"
    by (induction kvs) auto
  moreover from assms have "filter (\<lambda>kv. \<not> is_array_index (fst kv)) kvs = kvs"
    by (induction kvs) auto
  ultimately show ?thesis
    by (simp add: object_entries_def)
qed

text \<open>
  Claim C8, as amended. The categories renderer appends one paragraph per property of
  \<open>items\<close>, in the order \<open>Object.entries\<close> enumerates them; that order is the
  insertion order whenever no category name is an array index. Each paragraph holds the
  category name in \<open>strong\<close>, a colon, and the category's items joined by a comma and a
  space in their list order.
\<close>

theorem categories_in_enumeration_order:
  "(sec_items sec = ItemsObject kvs \<longrightarrow>
      renderCategoriesSection (Element t a old) sec =
        Inr (Element t a (old @ map category_line (object_entries kvs)))) \<and>
   ((\<forall>k \<in> set (map fst kvs). \<not> is_array_index k) \<longrightarrow> object_entries kvs = kvs) \<and>
   category_line (cat, its) =
     Element ''p'' [] [Markup (''<strong>'' @ cat @ '':</strong> '' @ join '', '' its)] \<and>
   renderers br d ''categories'' = Some renderCategoriesSection"
proof (intro conjI impI)
  assume "sec_items sec = ItemsObject kvs"
  then show "renderCategoriesSection (Element t a old) sec =
        Inr (Element t a (old @ map category_line (object_entries kvs)))"
    by (simp add: renderCategoriesSection_def foldl_appendChild)
next
  assume "\<forall>k \<in> set (map fst kvs). \<not> is_array_index k"
  then show "object_entries kvs = kvs"
    by (rule object_entries_plain)
next
  show "category_line (cat, its) =
     Element ''p'' [] [Markup (''<strong>'' @ cat @ '':</strong> '' @ join '', '' its)]"
    by (rule category_line_shape)
next
  show "renderers br d ''categories'' = Some renderCategoriesSection"
    by (simp add: renderers_def)
qed

text \<open>The amended claim C8 on two categories with names that are not array indices.\<close>

theorem categories_in_enumeration_order_witness:
  "renderCategoriesSection (Element ''div'' [(''className'', ''container'')] [])
      (categories_section [(''Languages'', [''Go'', ''SQL'']), (''Tools'', [''Git''])]) =
     Inr (Element ''div'' [(''className'', ''container'')]
            [Element ''p'' [] [Markup ''<strong>Languages:</strong> Go, SQL''],
             Element ''p'' [] [Markup ''<strong>Tools:</strong> Git'']])"
proof -
  let ?kvs = "[(''Languages'', [''Go'', ''SQL'']), (''Tools'', [''Git''])]"
  have h1: "sec_items (categories_section ?kvs) = ItemsObject ?kvs"
    by (simp add: categories_section_def)
  have h2: "\<forall>k \<in> set (map fst ?kvs). \<not> is_array_index k"
    by (simp add: is_array_index_def is_digit_def)
  note T = categories_in_enumeration_order
      [of "categories_section ?kvs" ?kvs "''div''" "[(''className'', ''container'')]" "[]"]
  from T h1 have "renderCategoriesSection (Element ''div'' [(''className'', ''container'')] [])
      (categories_section ?kvs) =
        Inr (Element ''div'' [(''className'', ''container'')]
               ([] @ map category_line (object_entries ?kvs)))"
    by blast
  moreover from T h2 have "object_entries ?kvs = ?kvs"
    by blast
  ultimately show ?thesis
    by (simp add: category_line_shape)
qed

text \<open>Claim C8 as stated fails when a category name is an array index: with
  \<open>Languages\<close> inserted before \<open>2024\<close>, the line of \<open>2024\<close> comes first.\<close>

theorem categories_numeric_names_first:
  "renderCategoriesSection (Element ''div'' [(''className'', ''container'')] [])
      (categories_section [(''Languages'', [''Go'']), (''2024'', [''Award''])]) =
     Inr (Element ''div'' [(''className'', ''container'')]
            [Element ''p'' [] [Markup ''<strong>2024:</strong> Award''],
             Element ''p'' [] [Markup ''<strong>Languages:</strong> Go'']])"
  by code_simp

subsection \<open>Linked text\<close>

text \<open>What \<open>renderLinkedText\<close> does when the anchor markup holds no dollar sign: the
  links are processed in order, each on the result of the one before; a link whose text
  occurs is replaced at its first occurrence by the anchor, the rest of the string is kept;
  a link whose text does not occur changes nothing.\<close>

lemma getSubstitution_plain:
  "CHR ''$'' \<notin> set repl \<Longrightarrow> getSubstitution m p f repl = repl"
  by (induction m p f repl rule: getSubstitution.induct) auto

lemma startsWith_iff: "startsWith s p = (\<exists>r. s = p @ r)"
  by (induction s p rule: startsWith.induct) auto

lemma split_first_sound:
  "split_first pat s = Some (p, f) \<Longrightarrow> s = p @ pat @ f"
proof (induction s arbitrary: p)
  case Nil
  then show ?case by (simp split: if_splits)
next
  case (Cons c cs)
  show ?case
  proof (cases "startsWith (c # cs) pat")
    case True
    then obtain r where r: "c # cs = pat @ r"
      by (auto simp: startsWith_iff)
    from True Cons.prems have "p = [] \<and> f = drop (length pat) (c # cs)"
      by auto
    with r show ?thesis by simp
  next
    case False
    with Cons.prems obtain p' where "split_first pat cs = Some (p', f)" "p = c # p'"
      by (auto split: option.splits)
    with Cons.IH show ?thesis by simp
  qed
qed

lemma split_first_earliest:
  "split_first pat s = Some (p, f) \<Longrightarrow> i < length p \<Longrightarrow> \<not> startsWith (drop i s) pat"
proof (induction s arbitrary: p i)
  case Nil
  then show ?case by (simp split: if_splits)
next
  case (Cons c cs)
  show ?case
  proof (cases "startsWith (c # cs) pat")
    case True
    with Cons.prems show ?thesis by simp
  next
    case False
    with Cons.prems obtain p' where p': "split_first pat cs = Some (p', f)" "p = c # p'"
      by (auto split: option.splits)
    show ?thesis
    proof (cases i)
      case 0
      with False show ?thesis by simp
    next
      case (Suc k)
      with Cons.prems(2) p' have "k < length p'" by simp
      from Cons.IH[OF p'(1) this] Suc show ?thesis by simp
    qed
  qed
qed

lemma split_first_none:
  "split_first pat s = None \<Longrightarrow> s \<noteq> p @ pat @ f"
proof (induction s arbitrary: p)
  case Nil
  then show ?case by (simp split: if_splits)
next
  case (Cons c cs)
  from Cons.prems have ns: "\<not> startsWith (c # cs) pat" and rest: "split_first pat cs = None"
    by (auto split: if_splits option.splits)
  show ?case
  proof (cases p)
    case Nil
    with ns show ?thesis by (auto simp: startsWith_iff)
  next
    case (Cons q qs)
    with Cons.IH[OF rest, of qs] show ?thesis by auto
  qed
qed

lemma renderLinkedText_plain:
  "renderLinkedText text [] = text"
  "renderLinkedText text (l # ls) = renderLinkedText (replace text (link_text l) (linkHtml l)) ls"
  "CHR ''$'' \<notin> set (linkHtml l) \<Longrightarrow> split_first (link_text l) text = Some (p, f) \<Longrightarrow>
     text = p @ link_text l @ f \<and> replace text (link_text l) (linkHtml l) = p @ linkHtml l @ f"
  "split_first (link_text l) text = None \<Longrightarrow> replace text (link_text l) (linkHtml l) = text"
  by (simp_all add: renderLinkedText_def replace_def getSubstitution_plain split_first_sound)

lemma renderLinkedText_examples:
  "renderLinkedText ''Foo and Foo''
      [\<lparr>link_text = ''Foo'', link_url = ''u''\<rparr>] =
     ''<a href=\"u\" target=\"_blank\">Foo</a> and Foo''"
  "renderLinkedText ''Foo''
      [\<lparr>link_text = ''Foo'', link_url = ''u''\<rparr>, \<lparr>link_text = ''a'', link_url = ''v''\<rparr>] =
     ''<<a href=\"v\" target=\"_blank\">a</a> href=\"u\" target=\"_blank\">Foo</a>''"
  by code_simp+

text \<open>
  Claim C6 at a link whose url holds the replacement pattern \<open>$&\<close>: the anchor
  inserted for the first occurrence of the link text does not point to the link's url; the
  pattern has been replaced by the matched text.
\<close>

theorem linked_text_dollar_pattern:
  "linkHtml dollar_link = ''<a href=\"http://x.io/?q=$&\" target=\"_blank\">Foo</a>'' \<and>
   renderLinkedText ''See Foo'' [dollar_link] =
     ''See <a href=\"http://x.io/?q=Foo\" target=\"_blank\">Foo</a>''"
  by code_simp

subsection \<open>Element references\<close>

text \<open>A mutation through a reference is seen through the same reference afterwards, and
  the position \<open>locate\<close> gives is the position of the element \<open>querySelector\<close>
  returns.\<close>

lemma node_at_update_at:
  "node_at ns p = Some n \<Longrightarrow> node_at (update_at f ns p) p = Some (f n)"
proof (induction p arbitrary: ns)
  case Nil
  then show ?case by simp
next
  case (Cons i p)
  show ?case
  proof (cases "p = []")
    case True
    with Cons.prems show ?thesis by (simp split: if_splits)
  next
    case False
    with Cons.prems have i: "i < length ns" and below: "node_at (children_of (ns ! i)) p = Some n"
      by (simp_all split: if_splits)
    from below False obtain t a cs where el: "ns ! i = Element t a cs"
      by (cases "ns ! i"; cases p) simp_all
    from Cons.IH[OF below] show ?thesis
      using i False by (simp add: el)
  qed
qed

lemma element_at_update_element:
  assumes "element_at pg pos = Some el" and "is_element (f el)"
  shows "element_at (update_element pos f pg) pos = Some (f el)"
proof -
  from assms(2) obtain t a cs where fe: "f el = Element t a cs"
    by (cases "f el") (simp_all add: is_element_def)
  show ?thesis
  proof (cases pos)
    case (InHead p)
    with assms(1) have "node_at (doc_head pg) p = Some el"
      by (auto simp: element_at_def split: option.splits node.splits)
    from node_at_update_at[OF this, of f] show ?thesis
      by (simp add: element_at_def update_element_def InHead fe)
  next
    case (InBody p)
    with assms(1) have "node_at (doc_body pg) p = Some el"
      by (auto simp: element_at_def split: option.splits node.splits)
    from node_at_update_at[OF this, of f] show ?thesis
      by (simp add: element_at_def update_element_def InBody fe)
  qed
qed

lemma locate_find_general:
  "(locate_node P n = None \<longrightarrow> find_node P n = None) \<and>
   (\<forall>p. locate_node P n = Some p \<longrightarrow>
      (\<exists>m. find_node P n = Some m \<and>
           (if p = [] then Some n else node_at (children_of n) p) = Some m))"
  "(locate_forest P i ns = None \<longrightarrow> find_forest P ns = None) \<and>
   (\<forall>p. locate_forest P i ns = Some p \<longrightarrow>
      (\<exists>j q m. p = (i + j) # q \<and> find_forest P ns = Some m \<and> node_at ns (j # q) = Some m))"
proof (induction P n and P i ns rule: locate_node_locate_forest.induct)
  case (1 P t a cs)
  show ?case
  proof (cases "P (Element t a cs)")
    case True
    then show ?thesis by simp
  next
    case False
    with 1 show ?thesis by auto
  qed
next
  case (2 P s)
  then show ?case by simp
next
  case (3 P s)
  then show ?case by simp
next
  case (4 P i)
  then show ?case by simp
next
  case (5 P i n ns)
  show ?case
  proof (cases "locate_node P n")
    case None
    with 5 have fn: "find_node P n = None"
      and rest: "locate_forest P (Suc i) ns = None \<longrightarrow> find_forest P ns = None"
      and rest2: "\<forall>p. locate_forest P (Suc i) ns = Some p \<longrightarrow>
             (\<exists>j q m. p = (Suc i + j) # q \<and> find_forest P ns = Some m \<and>
                      node_at ns (j # q) = Some m)"
      by simp_all
    show ?thesis
    proof (intro conjI impI allI)
      assume "locate_forest P i (n # ns) = None"
      with None rest fn show "find_forest P (n # ns) = None" by simp
    next
      fix p assume "locate_forest P i (n # ns) = Some p"
      with None have "locate_forest P (Suc i) ns = Some p" by simp
      with rest2 obtain j q m where jq: "p = (Suc i + j) # q" "find_forest P ns = Some m"
          "node_at ns (j # q) = Some m"
        by blast
      then have "p = (i + Suc j) # q \<and> find_forest P (n # ns) = Some m \<and>
                 node_at (n # ns) (Suc j # q) = Some m"
        using fn by (simp split: if_splits)
      then show "\<exists>j q m. p = (i + j) # q \<and> find_forest P (n # ns) = Some m \<and>
                          node_at (n # ns) (j # q) = Some m"
        by blast
    qed
  next
    case (Some p)
    with 5 obtain m where fn: "find_node P n = Some m"
        "(if p = [] then Some n else node_at (children_of n) p) = Some m"
      by auto
    then have "i # p = (i + 0) # p \<and> find_forest P (n # ns) = Some m \<and>
               node_at (n # ns) (0 # p) = Some m"
      by (cases "p = []") simp_all
    then have "\<exists>j q m. i # p = (i + j) # q \<and> find_forest P (n # ns) = Some m \<and>
                        node_at (n # ns) (j # q) = Some m"
      by blast
    with Some show ?thesis by simp
  qed
qed

lemma locate_forest_find:
  "(locate_forest P 0 ns = None) = (find_forest P ns = None)"
  "locate_forest P 0 ns = Some p \<Longrightarrow> node_at ns p = find_forest P ns"
proof -
  show "(locate_forest P 0 ns = None) = (find_forest P ns = None)"
    using locate_find_general(2)[of P 0 ns] by (cases "locate_forest P 0 ns") auto
  show "locate_forest P 0 ns = Some p \<Longrightarrow> node_at ns p = find_forest P ns"
    using locate_find_general(2)[of P 0 ns] by auto
qed

lemma find_forest_is_element:
  "find_forest P ns = Some n \<Longrightarrow> \<exists>t a cs. n = Element t a cs"
  using find_satisfies(2)[of P ns n] by (cases n) (simp_all add: is_element_def)

lemma locate_querySelector:
  "(locate P pg = None) = (querySelector P pg = None)"
  "locate P pg = Some pos \<Longrightarrow> element_at pg pos = querySelector P pg"
proof -
  show "(locate P pg = None) = (querySelector P pg = None)"
    using locate_forest_find(1)[of P "doc_head pg"] locate_forest_find(1)[of P "doc_body pg"]
    by (cases "locate_forest P 0 (doc_head pg)"; cases "find_forest P (doc_head pg)")
       (simp_all add: locate_def querySelector_def)
  assume a: "locate P pg = Some pos"
  show "element_at pg pos = querySelector P pg"
  proof (cases "locate_forest P 0 (doc_head pg)")
    case None
    with a obtain p where p: "locate_forest P 0 (doc_body pg) = Some p" "pos = InBody p"
      by (auto simp: locate_def)
    from None have h: "find_forest P (doc_head pg) = None"
      by (simp add: locate_forest_find(1))
    from locate_forest_find(2)[OF p(1)] have n: "node_at (doc_body pg) p = find_forest P (doc_body pg)" .
    from p(1) have "find_forest P (doc_body pg) \<noteq> None"
      using locate_forest_find(1)[of P "doc_body pg"] by simp
    then obtain m where m: "find_forest P (doc_body pg) = Some m" by blast
    from find_forest_is_element[OF m] obtain t a cs where "m = Element t a cs" by blast
    with m n h p(2) show ?thesis
      by (simp add: element_at_def querySelector_def)
  next
    case (Some p)
    with a have pos: "pos = InHead p" by (simp add: locate_def)
    from locate_forest_find(2)[OF Some] have n: "node_at (doc_head pg) p = find_forest P (doc_head pg)" .
    from Some have "find_forest P (doc_head pg) \<noteq> None"
      using locate_forest_find(1)[of P "doc_head pg"] by simp
    then obtain m where m: "find_forest P (doc_head pg) = Some m" by blast
    from find_forest_is_element[OF m] obtain t a cs where "m = Element t a cs" by blast
    with m n pos show ?thesis
      by (simp add: element_at_def querySelector_def)
  qed
qed


subsection \<open>The section pass\<close>

text \<open>The prepared container; every renderer either throws before it touches the
  container or appends to it nodes that do not depend on the container.\<close>

lemma prepare_container_shape:
  "prepare_container title (Element t a cs) =
     Element t a
       [Element ''h2''
          (case querySelector_in (has_tag ''h2'') (Element t a cs) of
             Some h \<Rightarrow> props_of h | None \<Rightarrow> [])
          (if title = [] then [] else [TextNode title])]"
proof (cases "querySelector_in (has_tag ''h2'') (Element t a cs)")
  case None
  then show ?thesis
    by (simp add: prepare_container_def createElement_def set_textContent_def
          set_innerHTML_def appendChild_def)
next
  case (Some h)
  then have "find_forest (has_tag ''h2'') cs = Some h"
    by (simp add: querySelector_in_def)
  then have "has_tag ''h2'' h \<and> is_element h"
    by (rule find_satisfies(2))
  then obtain ha hcs where h: "h = Element ''h2'' ha hcs"
    by (cases h) (simp_all add: has_tag_def is_element_def)
  with Some show ?thesis
    by (simp add: prepare_container_def set_textContent_def set_innerHTML_def appendChild_def)
qed


lemma renderTimelineSection_uniform:
  "(\<exists>X. \<forall>t a cs. renderTimelineSection br (Element t a cs) sec = Inr (Element t a (cs @ X))) \<or>
   (\<forall>c. renderTimelineSection br c sec = Inl TypeError)"
proof (cases "sec_items sec")
  case ItemsAbsent
  then have "\<forall>t a cs. renderTimelineSection br (Element t a cs) sec = Inr (Element t a (cs @ []))"
    by (simp add: renderTimelineSection_def)
  then show ?thesis by blast
next
  case (ItemsString x)
  show ?thesis
  proof (cases "x = []")
    case True
    with ItemsString
    have "\<forall>t a cs. renderTimelineSection br (Element t a cs) sec = Inr (Element t a (cs @ []))"
      by (simp add: renderTimelineSection_def)
    then show ?thesis by blast
  next
    case False
    with ItemsString show ?thesis by (simp add: renderTimelineSection_def)
  qed
next
  case (ItemsContacts x)
  then show ?thesis
    by (intro disjI1 exI allI) (simp add: renderTimelineSection_def foldl_appendChild)
next
  case (ItemsTimeline x)
  then show ?thesis
    by (intro disjI1 exI allI) (simp add: renderTimelineSection_def foldl_appendChild)
next
  case (ItemsCards x)
  then show ?thesis
    by (intro disjI1 exI allI) (simp add: renderTimelineSection_def foldl_appendChild)
next
  case (ItemsObject x)
  then show ?thesis by (simp add: renderTimelineSection_def)
qed

lemma renderCardsSection_uniform:
  "(\<exists>X. \<forall>t a cs. renderCardsSection (Element t a cs) sec = Inr (Element t a (cs @ X))) \<or>
   (\<forall>c. renderCardsSection c sec = Inl TypeError)"
proof (cases "sec_items sec")
  case ItemsAbsent
  then have "\<forall>t a cs. renderCardsSection (Element t a cs) sec = Inr (Element t a (cs @ []))"
    by (simp add: renderCardsSection_def)
  then show ?thesis by blast
next
  case (ItemsString x)
  show ?thesis
  proof (cases "x = []")
    case True
    with ItemsString
    have "\<forall>t a cs. renderCardsSection (Element t a cs) sec = Inr (Element t a (cs @ []))"
      by (simp add: renderCardsSection_def)
    then show ?thesis by blast
  next
    case False
    with ItemsString show ?thesis by (simp add: renderCardsSection_def)
  qed
next
  case (ItemsContacts x)
  then show ?thesis
    by (intro disjI1 exI allI) (simp add: renderCardsSection_def foldl_appendChild)
next
  case (ItemsTimeline x)
  then show ?thesis
    by (intro disjI1 exI allI) (simp add: renderCardsSection_def foldl_appendChild)
next
  case (ItemsCards x)
  then show ?thesis
    by (intro disjI1 exI allI) (simp add: renderCardsSection_def foldl_appendChild)
next
  case (ItemsObject x)
  then show ?thesis by (simp add: renderCardsSection_def)
qed

lemma renderCategoriesSection_uniform:
  "(\<exists>X. \<forall>t a cs. renderCategoriesSection (Element t a cs) sec = Inr (Element t a (cs @ X))) \<or>
   (\<forall>c. renderCategoriesSection c sec = Inl TypeError)"
proof -
  have empty: "(\<forall>t a cs. renderCategoriesSection (Element t a cs) sec = Inr (Element t a (cs @ []))) \<Longrightarrow>
      ?thesis" by blast
  show ?thesis
  proof (cases "sec_items sec")
    case ItemsAbsent
    then show ?thesis by (intro empty) (simp add: renderCategoriesSection_def)
  next
    case (ItemsString x)
    then show ?thesis
      by (cases "x = []") (auto intro!: empty simp: renderCategoriesSection_def)
  next
    case (ItemsContacts x)
    then show ?thesis
      by (cases "x = []") (auto intro!: empty simp: renderCategoriesSection_def)
  next
    case (ItemsTimeline x)
    then show ?thesis
      by (cases "x = []") (auto intro!: empty simp: renderCategoriesSection_def)
  next
    case (ItemsCards x)
    then show ?thesis
      by (cases "x = []") (auto intro!: empty simp: renderCategoriesSection_def)
  next
    case (ItemsObject x)
    then show ?thesis
      by (intro disjI1 exI allI) (simp add: renderCategoriesSection_def foldl_appendChild)
  qed
qed

lemma renderContactSection_uniform:
  "(\<exists>X. \<forall>t a cs. renderContactSection d (Element t a cs) sec = Inr (Element t a (cs @ X))) \<or>
   (\<forall>c. renderContactSection d c sec = Inl TypeError)"
proof (cases "resolve_contacts d sec")
  case (Inl e)
  then show ?thesis by (cases e) (simp_all add: renderContactSection_def resolve_contacts_def
      split: items.splits if_splits)
next
  case (Inr r)
  show ?thesis
  proof (cases r)
    case None
    with Inr show ?thesis
      by (intro disjI1 exI allI) (simp add: renderContactSection_def appendChild_def)
  next
    case (Some x)
    with Inr show ?thesis
      by (intro disjI1 exI allI) (simp add: renderContactSection_def appendChild_def)
  qed
qed

lemma renderers_uniform:
  assumes "renderers br d ty = Some r"
  shows "(\<exists>X. \<forall>t a cs. r (Element t a cs) sec = Inr (Element t a (cs @ X))) \<or>
         (\<forall>c. r c sec = Inl TypeError)"
proof -
  consider "r = (\<lambda>container sec. Inr (renderTextSection container sec))"
    | "r = renderTimelineSection br" | "r = renderCategoriesSection"
    | "r = renderCardsSection" | "r = renderContactSection d"
    | "r = (\<lambda>container sec. Inr container)" | "r = (\<lambda>container sec. Inl TypeError)"
    using assms unfolding renderers_def by (metis option.inject option.distinct(1))
  then show ?thesis
  proof cases
    case 1
    then show ?thesis
      by (intro disjI1 exI allI) (simp add: renderTextSection_def appendChild_def)
  next
    case 2 then show ?thesis using renderTimelineSection_uniform by simp
  next
    case 3 then show ?thesis using renderCategoriesSection_uniform by simp
  next
    case 4 then show ?thesis using renderCardsSection_uniform by simp
  next
    case 5 then show ?thesis using renderContactSection_uniform by simp
  next
    case 6
    then have "\<forall>t a cs. r (Element t a cs) sec = Inr (Element t a (cs @ []))" by simp
    then show ?thesis by blast
  next
    case 7 then show ?thesis by simp
  qed
qed

lemma renderers_output:
  assumes "renderers br d (sec_type sec) = Some r"
  shows "(\<not> throws br d sec \<and>
          (\<forall>t a cs. r (Element t a cs) sec = Inr (Element t a (cs @ section_output br d sec)))) \<or>
         (throws br d sec \<and> section_output br d sec = [] \<and> (\<forall>c. r c sec = Inl TypeError))"
proof -
  from renderers_uniform[OF assms, of sec] show ?thesis
  proof
    assume "\<exists>X. \<forall>t a cs. r (Element t a cs) sec = Inr (Element t a (cs @ X))"
    then obtain X where X: "\<forall>t a cs. r (Element t a cs) sec = Inr (Element t a (cs @ X))"
      by blast
    then have "r (Element [] [] []) sec = Inr (Element [] [] X)" by simp
    with assms have "section_output br d sec = X" "\<not> throws br d sec"
      by (simp_all add: section_output_def throws_def)
    with X show ?thesis by simp
  next
    assume a: "\<forall>c. r c sec = Inl TypeError"
    with assms have "section_output br d sec = []" "throws br d sec"
      by (simp_all add: section_output_def throws_def)
    with a show ?thesis by simp
  qed
qed


lemma render_container_explicit:
  "render_container br d sec (Element t a cs) =
     Element t a
       (Element ''h2''
          (case querySelector_in (has_tag ''h2'') (Element t a cs) of
             Some h \<Rightarrow> props_of h | None \<Rightarrow> [])
          (if sec_title sec = [] then [] else [TextNode (sec_title sec)]) # section_output br d sec)"
proof (cases "renderers br d (sec_type sec)")
  case None
  then show ?thesis
    by (simp add: render_container_def prepare_container_shape section_output_def)
next
  case (Some r)
  from renderers_output[OF Some] Some show ?thesis
    by (auto simp: render_container_def prepare_container_shape)
qed

lemma renderers_None_iff:
  "(renderers br d t = None) = (t \<notin> set registered_types \<and> t \<notin> set object_prototype_names)"
  by (simp add: renderers_def registered_types_def object_prototype_names_def)

lemma container_element:
  assumes "querySelector_in (has_class ''container'') el = Some c"
  shows "\<exists>t a cs. c = Element t a cs \<and> has_class ''container'' (Element t a cs)"
proof -
  from assms have "find_forest (has_class ''container'') (children_of el) = Some c"
    by (simp add: querySelector_in_def)
  then have "has_class ''container'' c \<and> is_element c"
    by (rule find_satisfies(2))
  then show ?thesis
    by (cases c) (simp_all add: is_element_def)
qed

lemma update_in_container:
  assumes "querySelector_in (has_class ''container'') (Element u b es) = Some (Element t a cs)"
  shows "\<exists>es'. update_in (has_class ''container'') (\<lambda>old. Element t a cs') (Element u b es) =
                  Element u b es' \<and>
               querySelector_in (has_class ''container'') (Element u b es') = Some (Element t a cs')"
proof -
  from assms have f: "find_forest (has_class ''container'') es = Some (Element t a cs)"
    by (simp add: querySelector_in_def)
  then have "has_class ''container'' (Element t a cs)"
    using find_satisfies(2) by blast
  then have h: "has_class ''container'' (Element t a cs')"
    using shallowD[OF shallow_selectors(2), of "''container''" t a cs' cs] by simp
  have e: "is_element (Element t a cs')" by (simp add: is_element_def)
  from find_after_update(2)[of "has_class ''container''" es "Element t a cs"
         "\<lambda>old. Element t a cs'", OF f h e]
  obtain es' where es': "update_forest (has_class ''container'') (\<lambda>old. Element t a cs') es = Some es'"
      "find_forest (has_class ''container'') es' = Some (Element t a cs')"
    using shallow_selectors(2) by blast
  then show ?thesis
    by (simp add: update_in_def querySelector_in_def)
qed

lemma element_at_put_container:
  assumes "element_at pg pos = Some el"
    and "querySelector_in (has_class ''container'') el = Some (Element t a cs)"
  shows "\<exists>el2. element_at (put_container pos (Element t a cs') pg) pos = Some el2 \<and>
               querySelector_in (has_class ''container'') el2 = Some (Element t a cs')"
proof -
  from assms(1) obtain u b es where el: "el = Element u b es"
    by (cases pos) (auto simp: element_at_def split: option.splits node.splits)
  from update_in_container[OF assms(2)[unfolded el], of cs']
  obtain es' where es': "update_in (has_class ''container'') (\<lambda>old. Element t a cs') el = Element u b es'"
      "querySelector_in (has_class ''container'') (Element u b es') = Some (Element t a cs')"
    unfolding el by blast
  then have "is_element (update_in (has_class ''container'') (\<lambda>old. Element t a cs') el)"
    by (simp add: is_element_def)
  from element_at_update_element[of pg pos el
         "update_in (has_class ''container'') (\<lambda>old. Element t a cs')", OF assms(1) this] es'
  show ?thesis
    by (simp add: put_container_def)
qed

lemma element_at_console [simp]:
  "element_at (pg\<lparr>console := lg\<rparr>) pos = element_at pg pos"
  by (cases pos) (simp_all add: element_at_def)

lemma renderSection_found:
  assumes "mount_selector br (sec_id sec) pg = Inr (Some pos)"
    and "element_at pg pos = Some el"
    and "querySelector_in (has_class ''container'') el = Some c"
  shows "renderSection br d sec pg =
           ((if renderers br d (sec_type sec) = None
             then warn (''No renderer found for section type: '' @ sec_type sec)
                    (put_container pos (render_container br d sec c) pg)
             else put_container pos (render_container br d sec c) pg),
            if throws br d sec then Some TypeError else None)"
proof -
  from container_element[OF assms(3)] obtain t a cs where c: "c = Element t a cs"
    by blast
  show ?thesis
  proof (cases "renderers br d (sec_type sec)")
    case None
    with assms show ?thesis
      by (simp add: renderSection_def render_container_def throws_def Let_def)
  next
    case (Some r)
    from renderers_output[OF Some] show ?thesis
    proof
      assume a: "\<not> throws br d sec \<and>
          (\<forall>t a cs. r (Element t a cs) sec = Inr (Element t a (cs @ section_output br d sec)))"
      with Some assms show ?thesis
        by (simp add: renderSection_def render_container_def Let_def c prepare_container_shape)
    next
      assume a: "throws br d sec \<and> section_output br d sec = [] \<and> (\<forall>c. r c sec = Inl TypeError)"
      with Some assms show ?thesis
        by (simp add: renderSection_def render_container_def Let_def)
    qed
  qed
qed

text \<open>A section whose mount point is found and holds no \<open>.container\<close> changes
  nothing; for an id that is a CSS identifier the mount point is the first element with
  that id.\<close>

lemma mount_selector_identifier:
  "css_identifier i \<Longrightarrow> mount_selector br i pg = Inr (locate (has_id i) pg)"
  by (simp add: mount_selector_def)

lemma identifier_mount_found:
  assumes "css_identifier (sec_id sec)"
    and "querySelector (has_id (sec_id sec)) pg = Some el"
  shows "\<exists>pos. mount_selector br (sec_id sec) pg = Inr (Some pos) \<and> element_at pg pos = Some el"
proof -
  from assms(2) have "locate (has_id (sec_id sec)) pg \<noteq> None"
    by (simp add: locate_querySelector(1))
  then obtain pos where pos: "locate (has_id (sec_id sec)) pg = Some pos"
    by blast
  with assms(2) have "element_at pg pos = Some el"
    by (simp add: locate_querySelector(2))
  with pos show ?thesis
    by (simp add: mount_selector_identifier[OF assms(1)])
qed

lemma no_container_no_change:
  assumes "mount_selector br (sec_id sec) pg = Inr (Some pos)"
    and "element_at pg pos = Some el"
    and "querySelector_in (has_class ''container'') el = None"
  shows "renderSection br d sec pg = (pg, None)"
  using assms by (simp add: renderSection_def)




text \<open>
  Claim C2, as amended. Let the section id be a CSS identifier. If no element of the page
  has that id, the section leaves the page, console included, unchanged and throws nothing,
  and the pass goes on with the remaining sections on the same page. If the mount point
  and a \<open>.container\<close> below it exist and the section type is neither a registered type nor
  the name of a property of \<open>Object.prototype\<close>, the section is not left alone: its
  container is emptied down to the heading, which carries the section title, one warning
  is logged and nothing is thrown; the pass goes on with the remaining sections on the
  page so changed.
\<close>

theorem missing_mount_or_renderer:
  assumes "css_identifier (sec_id sec)"
  shows "(querySelector (has_id (sec_id sec)) pg = None \<longrightarrow>
            renderSection br d sec pg = (pg, None) \<and>
            forEach_section br d (sec # rest) pg = forEach_section br d rest pg) \<and>
         (querySelector (has_id (sec_id sec)) pg = Some el \<and>
          querySelector_in (has_class ''container'') el = Some c \<and>
          sec_type sec \<notin> set registered_types \<and>
          sec_type sec \<notin> set object_prototype_names \<longrightarrow>
            (\<exists>pos. locate (has_id (sec_id sec)) pg = Some pos \<and>
               element_at pg pos = Some el \<and>
               renderSection br d sec pg =
                 (warn (''No renderer found for section type: '' @ sec_type sec)
                    (put_container pos
                       (Element (tag_of c) (props_of c)
                          [Element ''h2''
                     (case querySelector_in (has_tag ''h2'') c of Some h \<Rightarrow> props_of h | None \<Rightarrow> [])
                     (if sec_title sec = [] then [] else [TextNode (sec_title sec)])])
                       pg),
                  None) \<and>
               (\<exists>el2. element_at (fst (renderSection br d sec pg)) pos = Some el2 \<and>
                    querySelector_in (has_class ''container'') el2 =
                      Some (Element (tag_of c) (props_of c)
                              [Element ''h2''
                     (case querySelector_in (has_tag ''h2'') c of Some h \<Rightarrow> props_of h | None \<Rightarrow> [])
                     (if sec_title sec = [] then [] else [TextNode (sec_title sec)])])) \<and>
               forEach_section br d (sec # rest) pg =
                 forEach_section br d rest
                   (warn (''No renderer found for section type: '' @ sec_type sec)
                      (put_container pos
                         (Element (tag_of c) (props_of c)
                            [Element ''h2''
                     (case querySelector_in (has_tag ''h2'') c of Some h \<Rightarrow> props_of h | None \<Rightarrow> [])
                     (if sec_title sec = [] then [] else [TextNode (sec_title sec)])])
                         pg))))"
proof (intro conjI impI)
  assume "querySelector (has_id (sec_id sec)) pg = None"
  then have "locate (has_id (sec_id sec)) pg = None"
    by (simp add: locate_querySelector(1))
  then show r: "renderSection br d sec pg = (pg, None)"
    by (simp add: renderSection_def mount_selector_identifier[OF assms])
  then show "forEach_section br d (sec # rest) pg = forEach_section br d rest pg"
    by simp
next
  assume a: "querySelector (has_id (sec_id sec)) pg = Some el \<and>
          querySelector_in (has_class ''container'') el = Some c \<and>
          sec_type sec \<notin> set registered_types \<and>
          sec_type sec \<notin> set object_prototype_names"
  then have "locate (has_id (sec_id sec)) pg \<noteq> None"
    by (simp add: locate_querySelector(1))
  then obtain pos where pos: "locate (has_id (sec_id sec)) pg = Some pos"
    by blast
  with a have el: "element_at pg pos = Some el"
    by (simp add: locate_querySelector(2))
  from a have c: "querySelector_in (has_class ''container'') el = Some c"
    by simp
  from a have none: "renderers br d (sec_type sec) = None"
    by (simp add: renderers_None_iff)
  from pos have m: "mount_selector br (sec_id sec) pg = Inr (Some pos)"
    by (simp add: mount_selector_identifier[OF assms])
  from container_element[OF c] obtain t b cs where ce: "c = Element t b cs"
    by blast
  define H where "H = Element ''h2''
                     (case querySelector_in (has_tag ''h2'') c of Some h \<Rightarrow> props_of h | None \<Rightarrow> [])
                     (if sec_title sec = [] then [] else [TextNode (sec_title sec)])"
  have rc: "render_container br d sec c = Element t b [H]"
    using none by (simp add: ce render_container_explicit section_output_def H_def)
  have nt: "\<not> throws br d sec"
    using none by (simp add: throws_def)
  let ?pg = "warn (''No renderer found for section type: '' @ sec_type sec)
               (put_container pos (Element t b [H]) pg)"
  have r: "renderSection br d sec pg = (?pg, None)"
    by (simp add: renderSection_found[OF m el c] none rc nt)
  from element_at_put_container[OF el c[unfolded ce], of "[H]"]
  have found: "\<exists>el2. element_at (fst (renderSection br d sec pg)) pos = Some el2 \<and>
      querySelector_in (has_class ''container'') el2 = Some (Element t b [H])"
    by (simp add: r warn_def)
  have cont: "forEach_section br d (sec # rest) pg = forEach_section br d rest ?pg"
    by (simp add: r)
  from pos el r found cont
  show "\<exists>pos. locate (has_id (sec_id sec)) pg = Some pos \<and>
               element_at pg pos = Some el \<and>
               renderSection br d sec pg =
                 (warn (''No renderer found for section type: '' @ sec_type sec)
                    (put_container pos
                       (Element (tag_of c) (props_of c)
                          [Element ''h2''
                     (case querySelector_in (has_tag ''h2'') c of Some h \<Rightarrow> props_of h | None \<Rightarrow> [])
                     (if sec_title sec = [] then [] else [TextNode (sec_title sec)])])
                       pg),
                  None) \<and>
               (\<exists>el2. element_at (fst (renderSection br d sec pg)) pos = Some el2 \<and>
                    querySelector_in (has_class ''container'') el2 =
                      Some (Element (tag_of c) (props_of c)
                              [Element ''h2''
                     (case querySelector_in (has_tag ''h2'') c of Some h \<Rightarrow> props_of h | None \<Rightarrow> [])
                     (if sec_title sec = [] then [] else [TextNode (sec_title sec)])])) \<and>
               forEach_section br d (sec # rest) pg =
                 forEach_section br d rest
                   (warn (''No renderer found for section type: '' @ sec_type sec)
                      (put_container pos
                         (Element (tag_of c) (props_of c)
                            [Element ''h2''
                     (case querySelector_in (has_tag ''h2'') c of Some h \<Rightarrow> props_of h | None \<Rightarrow> [])
                     (if sec_title sec = [] then [] else [TextNode (sec_title sec)])])
                         pg))"
    unfolding H_def ce by (intro exI[of _ pos]) simp
qed


text \<open>The amended claim C2 on the example page: a section \<open>missing\<close>, followed by the
  section \<open>bare\<close>; and a section of the unknown type \<open>gallery\<close> mounted on \<open>#about\<close>.\<close>

theorem missing_mount_or_renderer_witness:
  "css_identifier ''missing'' \<and> css_identifier ''about'' \<and>
   renderSection plain_browser empty_document (text_section ''missing'' ''text'')
       section_example_page =
     (section_example_page, None) \<and>
   forEach_section plain_browser empty_document
       [text_section ''missing'' ''text'', text_section ''bare'' ''text''] section_example_page =
     (section_example_page, None) \<and>
   renderSection plain_browser empty_document (text_section ''about'' ''gallery'')
       section_example_page =
     (warn ''No renderer found for section type: gallery''
        (put_container (InBody [0])
           (Element ''div'' [(''className'', ''container'')]
              [Element ''h2'' [(''className'', ''heading'')] [TextNode ''About me'']])
           section_example_page), None)"
proof -
  let ?c = "Element ''div'' [(''className'', ''container'')]
         [Element ''div'' []
            [Element ''h2'' [(''className'', ''heading'')] [TextNode ''Static heading'']],
          Element ''p'' [] [TextNode ''static text'']]"
  let ?el = "Element ''section'' [(''id'', ''about'')] [?c]"
  have i1: "css_identifier (sec_id (text_section ''missing'' ''text''))"
    and i2: "css_identifier (sec_id (text_section ''about'' ''gallery''))"
    by code_simp+
  have m: "querySelector (has_id (sec_id (text_section ''missing'' ''text'')))
             section_example_page = None"
    by code_simp
  have a: "querySelector (has_id (sec_id (text_section ''about'' ''gallery'')))
             section_example_page = Some ?el \<and>
           querySelector_in (has_class ''container'') ?el = Some ?c \<and>
           sec_type (text_section ''about'' ''gallery'') \<notin> set registered_types \<and>
           sec_type (text_section ''about'' ''gallery'') \<notin> set object_prototype_names"
    by code_simp
  have l: "locate (has_id (sec_id (text_section ''about'' ''gallery''))) section_example_page =
             Some (InBody [0])"
    by code_simp
  have h: "querySelector_in (has_tag ''h2'') ?c =
      Some (Element ''h2'' [(''className'', ''heading'')] [TextNode ''Static heading''])"
    by code_simp
  have r: "forEach_section plain_browser empty_document [text_section ''bare'' ''text'']
             section_example_page = (section_example_page, None)"
    by code_simp
  note T1 = missing_mount_or_renderer
            [OF i1, of section_example_page plain_browser empty_document
                "[text_section ''bare'' ''text'']" ?el ?c]
  note T2 = missing_mount_or_renderer
            [OF i2, of section_example_page plain_browser empty_document "[]" ?el ?c]
  from T1 m have f1: "renderSection plain_browser empty_document (text_section ''missing'' ''text'')
        section_example_page = (section_example_page, None)"
    and f2: "forEach_section plain_browser empty_document
       [text_section ''missing'' ''text'', text_section ''bare'' ''text''] section_example_page =
       forEach_section plain_browser empty_document [text_section ''bare'' ''text'']
         section_example_page"
    by blast+
  from T2 a obtain pos where pos:
    "locate (has_id (sec_id (text_section ''about'' ''gallery''))) section_example_page = Some pos"
    "renderSection plain_browser empty_document (text_section ''about'' ''gallery'')
         section_example_page =
       (warn (''No renderer found for section type: '' @ sec_type (text_section ''about'' ''gallery''))
          (put_container pos
             (Element (tag_of ?c) (props_of ?c)
                [Element ''h2''
                   (case querySelector_in (has_tag ''h2'') ?c of
                      Some h \<Rightarrow> props_of h | None \<Rightarrow> [])
                   (if sec_title (text_section ''about'' ''gallery'') = [] then []
                    else [TextNode (sec_title (text_section ''about'' ''gallery''))])])
             section_example_page), None)"
    by blast
  from pos(1) l have "pos = InBody [0]" by simp
  with pos(2) have f3: "renderSection plain_browser empty_document (text_section ''about'' ''gallery'')
       section_example_page =
     (warn ''No renderer found for section type: gallery''
        (put_container (InBody [0])
           (Element ''div'' [(''className'', ''container'')]
              [Element ''h2'' [(''className'', ''heading'')] [TextNode ''About me'']])
           section_example_page), None)"
    by (simp add: h) (simp add: text_section_def)
  have i: "css_identifier ''missing'' \<and> css_identifier ''about''"
    using i1 i2 by (simp add: text_section_def)
  from i f1 f2 r f3 show ?thesis by simp
qed

text \<open>Claim C2 as stated fails for an unknown type: the section of type \<open>gallery\<close>
  mounted on \<open>#about\<close> has no renderer, and the static paragraph of its container is
  gone afterwards.\<close>

theorem unknown_type_clears_container:
  "querySelector (has_id ''about'') section_example_page \<noteq> None \<and>
   renderers plain_browser empty_document ''gallery'' = None \<and>
   doc_body (fst (renderSection plain_browser empty_document (text_section ''about'' ''gallery'')
                    section_example_page)) =
     [Element ''section'' [(''id'', ''about'')]
        [Element ''div'' [(''className'', ''container'')]
           [Element ''h2'' [(''className'', ''heading'')] [TextNode ''About me'']]],
      Element ''section'' [(''id'', ''bare'')]
        [Element ''p'' [] [TextNode ''no container'']],
      Element ''section'' [(''id'', ''plain'')]
        [Element ''div'' [(''className'', ''wide container'')]
           [Element ''p'' [] [TextNode ''static'']]]] \<and>
   doc_body (fst (renderSection plain_browser empty_document (text_section ''about'' ''gallery'')
                    section_example_page))
     \<noteq> doc_body section_example_page"
  by code_simp

text \<open>
  Claim C10. The section \<open>2024\<close> has a mount point, the element with the id \<open>2024\<close>,
  and this element holds no \<open>.container\<close>. The section is not skipped: the lookup of the
  mount point with the selector \<open>#2024\<close> throws a \<open>SyntaxError\<close>, for every browser and
  every document. The error ends the pass, so that the section \<open>about\<close>, which comes
  next, is not rendered, and \<open>init\<close> logs the failure.
\<close>

theorem numeric_id_mount_throws:
  "querySelector (has_id ''2024'') numeric_id_page =
     Some (Element ''section'' [(''id'', ''2024'')]
             [Element ''p'' [] [TextNode ''no container'']]) \<and>
   querySelector_in (has_class ''container'')
     (Element ''section'' [(''id'', ''2024'')]
        [Element ''p'' [] [TextNode ''no container'']]) = None \<and>
   renderSection br d (text_section ''2024'' ''text'') numeric_id_page =
     (numeric_id_page, Some SyntaxError) \<and>
   renderSections br numeric_id_document numeric_id_page =
     (numeric_id_page, Some SyntaxError) \<and>
   init br (ParsedBody (JsonDocument numeric_id_document)) numeric_id_page =
     numeric_id_page\<lparr>console := [(Error, ''Failed to initialize portfolio:'')]\<rparr>"
proof -
  have q: "querySelector (has_id ''2024'') numeric_id_page =
     Some (Element ''section'' [(''id'', ''2024'')]
             [Element ''p'' [] [TextNode ''no container'']])"
    by code_simp
  have n: "querySelector_in (has_class ''container'')
     (Element ''section'' [(''id'', ''2024'')]
        [Element ''p'' [] [TextNode ''no container'']]) = None"
    by code_simp
  have "\<not> css_identifier ''2024''" "list_all is_name_char ''2024''"
    by code_simp+
  then have "mount_selector br ''2024'' numeric_id_page = Inl SyntaxError"
    by (simp only: mount_selector_def if_False if_True)
  then have r: "renderSection br d (text_section ''2024'' ''text'') numeric_id_page =
     (numeric_id_page, Some SyntaxError)" for d
    by (simp add: renderSection_def text_section_def)
  have s: "renderSections br numeric_id_document numeric_id_page =
     (numeric_id_page, Some SyntaxError)"
    by (simp add: renderSections_def numeric_id_document_def r)
  have h: "renderHeader numeric_id_document (updateMeta numeric_id_document numeric_id_page) =
     numeric_id_page"
    by code_simp
  have c: "console numeric_id_page = []"
    by (simp add: numeric_id_page_def)
  have i: "init br (ParsedBody (JsonDocument numeric_id_document)) numeric_id_page =
     numeric_id_page\<lparr>console := [(Error, ''Failed to initialize portfolio:'')]\<rparr>"
    by (simp add: init_def loadData_def data_of_def renderPortfolio_def h s log_error_def c)
  from q n r s i show ?thesis by simp
qed

end
